theory Spec2Isabelle
  imports Complex_Main "HOL-Library.Sublist"
begin

section \<open>JavaScript values\<close>

text \<open>
  The plugin system is TypeScript. Three platform notions are used by the code that is
  modelled here: JSON values (the result of \<^verbatim>\<open>JSON.parse\<close> and the \<^verbatim>\<open>settings\<close> column),
  truthiness of strings (\<^verbatim>\<open>if (saved)\<close>, \<^verbatim>\<open>!pluginId\<close>) and the insertion-ordered
  \<^verbatim>\<open>Map\<close>.
\<close>

datatype json =
    JNull
  | JBool bool
  | JNumber real
  | JString string
  | JArray "json list"
  | JObject "(string \<times> json) list"

text \<open>A string is truthy exactly when it is not empty.\<close>

definition truthy :: "string \<Rightarrow> bool" where
  "truthy s = (s \<noteq> [])"

text \<open>
  \<^verbatim>\<open>session?.user?.id\<close> used as a condition: there is a session and its user id is a
  non-empty string. A session is represented by the user id it carries.
\<close>

fun hasUser :: "string option \<Rightarrow> bool" where
  "hasUser None = False"
| "hasUser (Some uid) = truthy uid"

text \<open>
  \<^verbatim>\<open>entityConfig.includes(id)\<close> on a parsed JSON value: \<^verbatim>\<open>Array.prototype.includes\<close> on an
  array (an element equal to the string), \<^verbatim>\<open>String.prototype.includes\<close> on a string
  (substring test), and a \<^verbatim>\<open>TypeError\<close> (\<open>None\<close>) on every other value, which has no
  callable \<^verbatim>\<open>includes\<close>.
\<close>

fun json_includes :: "json \<Rightarrow> string \<Rightarrow> bool option" where
  "json_includes (JArray xs) x = Some (JString x \<in> set xs)"
| "json_includes (JString s) x = Some (sublist x s)"
| "json_includes JNull x = None"
| "json_includes (JBool b) x = None"
| "json_includes (JNumber n) x = None"
| "json_includes (JObject kvs) x = None"

text \<open>
  \<^verbatim>\<open>ids.filter((id) => entityConfig.includes(id))\<close>: the first call that throws aborts
  the whole filter.
\<close>

fun filter_includes :: "json \<Rightarrow> string list \<Rightarrow> string list option" where
  "filter_includes cfg [] = Some []"
| "filter_includes cfg (x # xs) =
     (case json_includes cfg x of
        None \<Rightarrow> None
      | Some b \<Rightarrow>
          (case filter_includes cfg xs of
             None \<Rightarrow> None
           | Some ys \<Rightarrow> Some (if b then x # ys else ys)))"

subsection \<open>The insertion-ordered Map\<close>

text \<open>
  A JavaScript \<^verbatim>\<open>Map\<close> iterates in insertion order, and \<^verbatim>\<open>set\<close> on a key that is present
  replaces the value without moving the key. It is an association list in insertion
  order.
\<close>

type_synonym ('k, 'v) jsmap = "('k \<times> 'v) list"

definition Map_get :: "('k, 'v) jsmap \<Rightarrow> 'k \<Rightarrow> 'v option" where
  "Map_get m k = map_of m k"

definition Map_has :: "('k, 'v) jsmap \<Rightarrow> 'k \<Rightarrow> bool" where
  "Map_has m k = (map_of m k \<noteq> None)"

fun Map_set :: "'k \<Rightarrow> 'v \<Rightarrow> ('k, 'v) jsmap \<Rightarrow> ('k, 'v) jsmap" where
  "Map_set k v [] = [(k, v)]"
| "Map_set k v ((k', v') # m) =
     (if k' = k then (k, v) # m else (k', v') # Map_set k v m)"

definition Map_delete :: "'k \<Rightarrow> ('k, 'v) jsmap \<Rightarrow> ('k, 'v) jsmap" where
  "Map_delete k m = filter (\<lambda>kv. fst kv \<noteq> k) m"

definition Map_values :: "('k, 'v) jsmap \<Rightarrow> 'v list" where
  "Map_values m = map snd m"

text \<open>\<^verbatim>\<open>new Map(entries)\<close>: the entries are set one after the other.\<close>

definition Map_new :: "('k \<times> 'v) list \<Rightarrow> ('k, 'v) jsmap" where
  "Map_new entries = fold (\<lambda>kv m. Map_set (fst kv) (snd kv) m) entries []"

section \<open>The data model (\<^verbatim>\<open>lib/plugin-system/types.ts\<close>)\<close>

datatype EntityType = company | investor | global

fun entityType_str :: "EntityType \<Rightarrow> string" where
  "entityType_str company = ''company''"
| "entityType_str investor = ''investor''"
| "entityType_str global = ''global''"

record Slot =
  s_name :: string
  s_description :: string

record Route =
  r_path :: string
  r_label :: string

record PluginManifest =
  m_id :: string
  m_name :: string
  m_description :: string
  m_version :: string
  m_author :: "string option"
  m_icon :: "string option"
  m_entityTypes :: "EntityType list"
  m_slots :: "Slot list"
  m_hooks :: "string list option"
  m_routes :: "Route list option"

text \<open>
  A lifecycle hook is an asynchronous function of the plugin; what the loader observes
  of a call is whether the promise resolves or rejects.
\<close>

datatype hook = Resolves | Rejects

text \<open>
  A plugin module. \<open>'c\<close> is the type of React components, which the plugin system only
  stores and returns. \<open>pm_components\<close> lists the own properties of the \<^verbatim>\<open>components\<close>
  object in the order of \<^verbatim>\<open>Object.entries\<close>, and \<^verbatim>\<open>components[slotName]\<close> is a lookup in
  this list: properties that every object inherits (such as \<^verbatim>\<open>constructor\<close>) are not slot
  names of any manifest and are left out.
\<close>

record 'c PluginModule =
  pm_manifest :: PluginManifest
  pm_components :: "(string \<times> 'c) list"
  pm_initialize :: "hook option"
  pm_cleanup :: "hook option"

text \<open>
  A row of the \<^verbatim>\<open>pluginInstallation\<close> table. The two timestamps of the interface are
  maintained by the database and read by none of the modelled functions; they are left
  out.
\<close>

record PluginInstallation =
  i_id :: string
  i_userId :: string
  i_pluginId :: string
  i_enabled :: bool
  i_settings :: json

text \<open>
  A row of the \<^verbatim>\<open>entityPluginConfig\<close> table. The handlers only ever select its rows by
  \<^verbatim>\<open>userId\<close> and \<^verbatim>\<open>pluginId\<close>; the entity columns follow \<^verbatim>\<open>EntityPluginState\<close>.
\<close>

record EntityPluginConfig =
  c_userId :: string
  c_pluginId :: string
  c_entityType :: EntityType
  c_entityId :: string

section \<open>The registry and the module loader (\<^verbatim>\<open>lib/plugin-system/store\<close>)\<close>

text \<open>What the store prints and which hooks it calls, in order.\<close>

datatype event =
    ConsoleLog string
  | ConsoleWarn string
  | ConsoleError string
  | Initialize string
  | Cleanup string

text \<open>The three module-level maps of the store, and the trace of its effects.\<close>

record 'c store =
  availablePlugins :: "(string, PluginManifest) jsmap"
  loadedModules :: "(string, 'c PluginModule) jsmap"
  componentCache :: "(string, (string, 'c) jsmap) jsmap"
  trace :: "event list"

definition emptyStore :: "'c store" where
  "emptyStore = \<lparr>availablePlugins = [], loadedModules = [], componentCache = [], trace = []\<rparr>"

definition emit :: "event \<Rightarrow> 'c store \<Rightarrow> 'c store" where
  "emit e s = s\<lparr>trace := trace s @ [e]\<rparr>"

definition registerAvailablePlugin :: "PluginManifest \<Rightarrow> 'c store \<Rightarrow> 'c store" where
  "registerAvailablePlugin manifest s =
     (if Map_has (availablePlugins s) (m_id manifest)
      then emit (ConsoleWarn (''Plugin \"'' @ m_id manifest @ ''\" is already registered'')) s
      else emit (ConsoleLog (''Plugin \"'' @ m_name manifest @ ''\" registered as available''))
             (s\<lparr>availablePlugins := Map_set (m_id manifest) manifest (availablePlugins s)\<rparr>))"

definition getAvailablePlugins :: "'c store \<Rightarrow> PluginManifest list" where
  "getAvailablePlugins s = Map_values (availablePlugins s)"

definition getPluginManifest :: "'c store \<Rightarrow> string \<Rightarrow> PluginManifest option" where
  "getPluginManifest s pluginId = Map_get (availablePlugins s) pluginId"

definition getPluginsForEntityType :: "'c store \<Rightarrow> EntityType \<Rightarrow> PluginManifest list" where
  "getPluginsForEntityType s entityType =
     filter (\<lambda>p. entityType \<in> set (m_entityTypes p)) (Map_values (availablePlugins s))"

text \<open>A sequence of \<^verbatim>\<open>registerAvailablePlugin\<close> calls, first to last.\<close>

definition registerAll :: "PluginManifest list \<Rightarrow> 'c store \<Rightarrow> 'c store" where
  "registerAll manifests s = fold registerAvailablePlugin manifests s"

text \<open>
  The \<^verbatim>\<open>switch\<close> on the plugin id, shared by the server-side loader and the client-side
  one: a closed set of two dynamic imports. \<open>imp\<close> is the bundle: it maps a module
  specifier to the default export of the module, or to \<open>None\<close> when the import fails.
  The outer \<open>None\<close> is the \<^verbatim>\<open>default:\<close> branch.
\<close>

definition importPlugin ::
  "(string \<Rightarrow> 'c PluginModule option) \<Rightarrow> string \<Rightarrow> 'c PluginModule option option" where
  "importPlugin imp pluginId =
     (if pluginId = ''company-metrics'' then Some (imp ''@/plugins/company-metrics'')
      else if pluginId = ''investor-insights'' then Some (imp ''@/plugins/investor-insights'')
      else None)"

definition loadPluginModule ::
  "(string \<Rightarrow> 'c PluginModule option) \<Rightarrow> string \<Rightarrow> 'c store \<Rightarrow> 'c PluginModule option \<times> 'c store" where
  "loadPluginModule imp pluginId s =
     (if Map_has (loadedModules s) pluginId then (Map_get (loadedModules s) pluginId, s)
      else
        (case importPlugin imp pluginId of
           None \<Rightarrow> (None, emit (ConsoleWarn (''Unknown plugin: '' @ pluginId)) s)
         | Some None \<Rightarrow>
             (None, emit (ConsoleError (''Failed to load plugin \"'' @ pluginId @ ''\":'')) s)
         | Some (Some pluginModule) \<Rightarrow>
             (case pm_initialize pluginModule of
                Some Rejects \<Rightarrow>
                  (None, emit (ConsoleError (''Failed to load plugin \"'' @ pluginId @ ''\":''))
                           (emit (Initialize pluginId) s))
              | Some Resolves \<Rightarrow>
                  (let s1 = emit (Initialize pluginId) s;
                       s2 = s1\<lparr>loadedModules := Map_set pluginId pluginModule (loadedModules s1)\<rparr>;
                       slotComponents = Map_new (pm_components pluginModule)
                   in (Some pluginModule,
                       s2\<lparr>componentCache := Map_set pluginId slotComponents (componentCache s2)\<rparr>))
              | None \<Rightarrow>
                  (let s2 = s\<lparr>loadedModules := Map_set pluginId pluginModule (loadedModules s)\<rparr>;
                       slotComponents = Map_new (pm_components pluginModule)
                   in (Some pluginModule,
                       s2\<lparr>componentCache := Map_set pluginId slotComponents (componentCache s2)\<rparr>)))))"

definition getPluginComponent :: "'c store \<Rightarrow> string \<Rightarrow> string \<Rightarrow> 'c option" where
  "getPluginComponent s pluginId slotName =
     (case Map_get (componentCache s) pluginId of
        None \<Rightarrow> None
      | Some pluginComponents \<Rightarrow> Map_get pluginComponents slotName)"

definition unloadPluginModule :: "string \<Rightarrow> 'c store \<Rightarrow> 'c store" where
  "unloadPluginModule pluginId s =
     (let s1 = (case Map_get (loadedModules s) pluginId of
                  None \<Rightarrow> s
                | Some pluginModule \<Rightarrow>
                    (case pm_cleanup pluginModule of None \<Rightarrow> s | Some h \<Rightarrow> emit (Cleanup pluginId) s))
      in s1\<lparr>loadedModules := Map_delete pluginId (loadedModules s1),
             componentCache := Map_delete pluginId (componentCache s1)\<rparr>)"

definition isPluginLoaded :: "'c store \<Rightarrow> string \<Rightarrow> bool" where
  "isPluginLoaded s pluginId = Map_has (loadedModules s) pluginId"

text \<open>
  The registry is well formed when no id is stored twice and every manifest is stored
  under its own id.
\<close>

definition wf_registry :: "'c store \<Rightarrow> bool" where
  "wf_registry s \<longleftrightarrow>
     distinct (map fst (availablePlugins s)) \<and>
     list_all (\<lambda>kv. m_id (snd kv) = fst kv) (availablePlugins s)"

text \<open>
  The stores that the exported functions can produce, starting from the empty maps of
  the module. The bundle may differ from one load to the next.
\<close>

inductive reachable :: "'c store \<Rightarrow> bool" where
  reachable_empty: "reachable emptyStore"
| reachable_register: "reachable s \<Longrightarrow> reachable (registerAvailablePlugin manifest s)"
| reachable_load: "reachable s \<Longrightarrow> reachable (snd (loadPluginModule imp pluginId s))"
| reachable_unload: "reachable s \<Longrightarrow> reachable (unloadPluginModule pluginId s)"

section \<open>The plugins API (\<^verbatim>\<open>app/api/plugins/route.ts\<close>)\<close>

text \<open>
  The two tables the handlers use. \<^verbatim>\<open>pluginInstallation\<close> has the compound unique key
  \<^verbatim>\<open>userId_pluginId\<close>, by which the handlers select single rows. Such a selection is
  written here as the selection of all rows of that user and plugin; under the key there
  is at most one.
\<close>

record db =
  pluginInstallation :: "PluginInstallation list"
  entityPluginConfig :: "EntityPluginConfig list"

text \<open>
  A response: the status and, for 200, the body; an error response carries the text of
  its \<^verbatim>\<open>error\<close> field. A session is \<open>None\<close> or the id of its user. Exceptions of the
  session lookup, of reading the request body and of the database driver (the handlers
  answer them with 500) are outside the model, except where a handler provokes one
  itself, and except in the \<^verbatim>\<open>DELETE\<close> handler, the only one that writes twice.
\<close>

datatype 'a response =
    Status200 'a
  | Status400 string
  | Status401 string
  | Status404 string
  | Status500 string

record PluginInfo = PluginManifest +
  installed :: bool
  enabled :: bool
  settings :: json

record PluginsBody =
  plugins :: "PluginInfo list"
  isAuthenticated :: bool

text \<open>\<^verbatim>\<open>installations\<close>: the rows of the session's user, or no rows without one.\<close>

definition installationsOf :: "string option \<Rightarrow> db \<Rightarrow> PluginInstallation list" where
  "installationsOf session d =
     (case session of
        None \<Rightarrow> []
      | Some uid \<Rightarrow>
          if truthy uid then filter (\<lambda>i. i_userId i = uid) (pluginInstallation d) else [])"

definition installationMap :: "string option \<Rightarrow> db \<Rightarrow> (string, PluginInstallation) jsmap" where
  "installationMap session d = Map_new (map (\<lambda>i. (i_pluginId i, i)) (installationsOf session d))"

text \<open>
  One element of \<^verbatim>\<open>plugins\<close>: the manifest spread into an object with the three
  installation fields.
\<close>

definition pluginInfo :: "(string, PluginInstallation) jsmap \<Rightarrow> PluginManifest \<Rightarrow> PluginInfo" where
  "pluginInfo instMap manifest =
     PluginManifest.extend manifest
       (PluginInfo.fields
          (Map_has instMap (m_id manifest))
          (case Map_get instMap (m_id manifest) of None \<Rightarrow> False | Some i \<Rightarrow> i_enabled i)
          (case Map_get instMap (m_id manifest) of
             None \<Rightarrow> JObject []
           | Some i \<Rightarrow> if i_settings i = JNull then JObject [] else i_settings i))"

text \<open>\<^verbatim>\<open>plugins\<close>: every available manifest, in the order of the registry.\<close>

definition pluginList :: "'s store \<Rightarrow> string option \<Rightarrow> db \<Rightarrow> PluginInfo list" where
  "pluginList reg session d =
     (let availablePlugins = getAvailablePlugins reg;
          instMap = installationMap session d
      in map (pluginInfo instMap) availablePlugins)"

definition api_plugins_GET :: "'s store \<Rightarrow> string option \<Rightarrow> db \<Rightarrow> PluginsBody response" where
  "api_plugins_GET reg session d =
     Status200 \<lparr>plugins = pluginList reg session d, isAuthenticated = (session \<noteq> None)\<rparr>"

text \<open>
  \<^verbatim>\<open>prisma.pluginInstallation.upsert\<close> with \<^verbatim>\<open>create: {userId, pluginId, enabled: true}\<close>
  and \<^verbatim>\<open>update: {enabled: true}\<close>. The id and the settings of a created row are the
  defaults of the database schema, which is not part of the sources: they are parameters.
\<close>

definition upsertInstallation ::
  "string \<Rightarrow> json \<Rightarrow> string \<Rightarrow> string \<Rightarrow> PluginInstallation list \<Rightarrow>
   PluginInstallation \<times> PluginInstallation list" where
  "upsertInstallation newId defaultSettings uid pluginId rows =
     (case find (\<lambda>i. i_userId i = uid \<and> i_pluginId i = pluginId) rows of
        Some i \<Rightarrow>
          (i\<lparr>i_enabled := True\<rparr>,
           map (\<lambda>r. if i_userId r = uid \<and> i_pluginId r = pluginId then r\<lparr>i_enabled := True\<rparr> else r)
             rows)
      | None \<Rightarrow>
          (let i = \<lparr>i_id = newId, i_userId = uid, i_pluginId = pluginId, i_enabled = True,
                    i_settings = defaultSettings\<rparr>
           in (i, rows @ [i])))"

text \<open>
  \<^verbatim>\<open>POST /api/plugins\<close>. The session and the \<^verbatim>\<open>pluginId\<close> of the body (\<open>None\<close> when the
  body has none) are the request.
\<close>

definition api_plugins_POST ::
  "'s store \<Rightarrow> string \<Rightarrow> json \<Rightarrow> string option \<Rightarrow> string option \<Rightarrow> db \<Rightarrow>
   (PluginInstallation \<times> PluginManifest) response \<times> db" where
  "api_plugins_POST reg newId defaultSettings session body_pluginId d =
     (case session of
        None \<Rightarrow> (Status401 ''Authentication required'', d)
      | Some uid \<Rightarrow>
          if \<not> truthy uid then (Status401 ''Authentication required'', d)
          else
            (case body_pluginId of
               None \<Rightarrow> (Status400 ''Plugin ID is required'', d)
             | Some pluginId \<Rightarrow>
                 if \<not> truthy pluginId then (Status400 ''Plugin ID is required'', d)
                 else
                   (case getPluginManifest reg pluginId of
                      None \<Rightarrow> (Status404 ''Plugin not found'', d)
                    | Some manifest \<Rightarrow>
                        (case upsertInstallation newId defaultSettings uid pluginId
                                (pluginInstallation d) of
                           (installation, rows) \<Rightarrow>
                             (Status200 (installation, manifest),
                              d\<lparr>pluginInstallation := rows\<rparr>)))))"

text \<open>
  \<^verbatim>\<open>PATCH /api/plugins\<close>: \<^verbatim>\<open>enabled\<close> and \<^verbatim>\<open>settings\<close> of the body are written when they
  are present.
\<close>

definition api_plugins_PATCH ::
  "string option \<Rightarrow> string option \<Rightarrow> bool option \<Rightarrow> json option \<Rightarrow> db \<Rightarrow>
   PluginInstallation response \<times> db" where
  "api_plugins_PATCH session body_pluginId body_enabled body_settings d =
     (case session of
        None \<Rightarrow> (Status401 ''Authentication required'', d)
      | Some uid \<Rightarrow>
          if \<not> truthy uid then (Status401 ''Authentication required'', d)
          else
            (case body_pluginId of
               None \<Rightarrow> (Status400 ''Plugin ID is required'', d)
             | Some pluginId \<Rightarrow>
                 if \<not> truthy pluginId then (Status400 ''Plugin ID is required'', d)
                 else
                   (case find (\<lambda>i. i_userId i = uid \<and> i_pluginId i = pluginId)
                           (pluginInstallation d) of
                      None \<Rightarrow> (Status404 ''Plugin not installed'', d)
                    | Some existing \<Rightarrow>
                        (let upd = (\<lambda>r.
                               (let r1 = (case body_enabled of
                                            None \<Rightarrow> r | Some e \<Rightarrow> r\<lparr>i_enabled := e\<rparr>)
                                in (case body_settings of
                                      None \<Rightarrow> r1 | Some st \<Rightarrow> r1\<lparr>i_settings := st\<rparr>)))
                         in (Status200 (upd existing),
                             d\<lparr>pluginInstallation :=
                                 map (\<lambda>r. if i_userId r = uid \<and> i_pluginId r = pluginId
                                           then upd r else r)
                                   (pluginInstallation d)\<rparr>)))))"

text \<open>
  \<^verbatim>\<open>DELETE /api/plugins\<close> runs two statements, one after the other and not in a
  transaction. A fault says whether the database driver throws at one of them; the
  handler's \<^verbatim>\<open>catch\<close> answers 500 and what has been written stays written.
\<close>

datatype delete_fault = NoFault | DeleteThrows | DeleteManyThrows

text \<open>
  \<^verbatim>\<open>prisma.pluginInstallation.delete\<close> also throws when there is no such row, before the
  second statement is reached. Otherwise the row goes, and then \<^verbatim>\<open>deleteMany\<close> removes the
  \<^verbatim>\<open>entityPluginConfig\<close> rows of that user and plugin.
\<close>

definition api_plugins_DELETE ::
  "delete_fault \<Rightarrow> string option \<Rightarrow> string option \<Rightarrow> db \<Rightarrow> unit response \<times> db" where
  "api_plugins_DELETE fault session param_pluginId d =
     (case session of
        None \<Rightarrow> (Status401 ''Authentication required'', d)
      | Some uid \<Rightarrow>
          if \<not> truthy uid then (Status401 ''Authentication required'', d)
          else
            (case param_pluginId of
               None \<Rightarrow> (Status400 ''Plugin ID is required'', d)
             | Some pluginId \<Rightarrow>
                 if \<not> truthy pluginId then (Status400 ''Plugin ID is required'', d)
                 else
                   (case find (\<lambda>i. i_userId i = uid \<and> i_pluginId i = pluginId)
                           (pluginInstallation d) of
                      None \<Rightarrow> (Status500 ''Failed to uninstall plugin'', d)
                    | Some existing \<Rightarrow>
                        if fault = DeleteThrows
                        then (Status500 ''Failed to uninstall plugin'', d)
                        else
                          (let d1 = d\<lparr>pluginInstallation :=
                                        filter (\<lambda>i. \<not> (i_userId i = uid \<and> i_pluginId i = pluginId))
                                          (pluginInstallation d)\<rparr>
                           in if fault = DeleteManyThrows
                              then (Status500 ''Failed to uninstall plugin'', d1)
                              else
                                (let d2 = d1\<lparr>entityPluginConfig :=
                                             filter (\<lambda>c. \<not> (c_userId c = uid \<and>
                                                            c_pluginId c = pluginId))
                                               (entityPluginConfig d1)\<rparr>
                                 in (Status200 (), d2))))))"

section \<open>Slot resolution in the browser (\<^verbatim>\<open>components/DynamicSlot.tsx\<close>)\<close>

text \<open>
  The state of the browser that the component reads and writes: its module-level
  component cache, \<^verbatim>\<open>localStorage\<close>, and the console.
\<close>

record 'c browser =
  clientCache :: "(string, (string, 'c) jsmap) jsmap"
  localStorage :: "string \<Rightarrow> string option"
  console :: "event list"

definition consoleEmit :: "event \<Rightarrow> 'c browser \<Rightarrow> 'c browser" where
  "consoleEmit e b = b\<lparr>console := console b @ [e]\<rparr>"

text \<open>\<^verbatim>\<open>componentCache.get(pluginId)?.get(slotName)\<close>\<close>

definition cached :: "'c browser \<Rightarrow> string \<Rightarrow> string \<Rightarrow> 'c option" where
  "cached b pluginId slotName =
     (case Map_get (clientCache b) pluginId of
        None \<Rightarrow> None
      | Some slots \<Rightarrow> Map_get slots slotName)"

text \<open>
  \<^verbatim>\<open>loadPluginComponent\<close>. A failing import, or a default export without \<^verbatim>\<open>components\<close>,
  throws inside the \<^verbatim>\<open>try\<close>; both are the \<open>Some None\<close> of the bundle.
\<close>

definition loadPluginComponent ::
  "(string \<Rightarrow> 'c PluginModule option) \<Rightarrow> string \<Rightarrow> string \<Rightarrow> 'c browser \<Rightarrow>
   'c option \<times> 'c browser" where
  "loadPluginComponent imp pluginId slotName b =
     (case cached b pluginId slotName of
        Some c \<Rightarrow> (Some c, b)
      | None \<Rightarrow>
          (case importPlugin imp pluginId of
             None \<Rightarrow> (None, consoleEmit (ConsoleWarn (''Unknown plugin: '' @ pluginId)) b)
           | Some None \<Rightarrow>
               (None, consoleEmit (ConsoleError (''Failed to load plugin '' @ pluginId @ '':'')) b)
           | Some (Some pluginModule) \<Rightarrow>
               (case map_of (pm_components pluginModule) slotName of
                  None \<Rightarrow> (None, b)
                | Some component \<Rightarrow>
                    (let cache1 = (if \<not> Map_has (clientCache b) pluginId
                                   then Map_set pluginId [] (clientCache b)
                                   else clientCache b);
                         slots = (case Map_get cache1 pluginId of None \<Rightarrow> [] | Some m \<Rightarrow> m)
                     in (Some component,
                         b\<lparr>clientCache :=
                             Map_set pluginId (Map_set slotName component slots) cache1\<rparr>)))))"

text \<open>The \<^verbatim>\<open>for\<close> loop over \<^verbatim>\<open>activePluginIds\<close>, pushing each component that loads.\<close>

fun loadComponents ::
  "(string \<Rightarrow> 'c PluginModule option) \<Rightarrow> string \<Rightarrow> string list \<Rightarrow> 'c browser \<Rightarrow>
   'c list \<times> 'c browser" where
  "loadComponents imp slotName [] b = ([], b)"
| "loadComponents imp slotName (pluginId # rest) b =
     (case loadPluginComponent imp pluginId slotName b of
        (component, b1) \<Rightarrow>
          (case loadComponents imp slotName rest b1 of
             (loaded, b2) \<Rightarrow>
               ((case component of None \<Rightarrow> loaded | Some c \<Rightarrow> c # loaded), b2)))"

text \<open>\<^verbatim>\<open>enabledPlugins\<close>: installed, enabled, and declaring the slot.\<close>

definition enabledPlugins :: "string \<Rightarrow> PluginInfo list \<Rightarrow> PluginInfo list" where
  "enabledPlugins slotName ps =
     filter (\<lambda>p. installed p \<and> enabled p \<and> list_ex (\<lambda>s. s_name s = slotName) (m_slots p)) ps"

definition storageKey :: "EntityType \<Rightarrow> string \<Rightarrow> string" where
  "storageKey entityType entityId =
     ''entity-plugins:'' @ entityType_str entityType @ '':'' @ entityId"

text \<open>
  \<^verbatim>\<open>activePluginIds\<close> as it stands when the loop starts. \<open>JSON_parse\<close> is the platform's
  parser: \<open>None\<close> is a \<^verbatim>\<open>SyntaxError\<close>. The inner \<^verbatim>\<open>try\<close> also catches the \<^verbatim>\<open>TypeError\<close> of
  \<^verbatim>\<open>includes\<close>, and in both cases the assignment has not happened.
\<close>

definition activePluginIds ::
  "(string \<Rightarrow> json option) \<Rightarrow> string option \<Rightarrow> string \<Rightarrow> EntityType option \<Rightarrow> string option \<Rightarrow>
   PluginInfo list \<Rightarrow> 'c browser \<Rightarrow> string list" where
  "activePluginIds JSON_parse session slotName entityType entityId ps b =
     (let ids = map m_id (enabledPlugins slotName ps)
      in (case (entityType, entityId) of
            (Some et, Some eid) \<Rightarrow>
              if truthy eid \<and> hasUser session then
                (case localStorage b (storageKey et eid) of
                   None \<Rightarrow> ids
                 | Some saved \<Rightarrow>
                     if truthy saved then
                       (case JSON_parse saved of
                          None \<Rightarrow> ids
                        | Some entityConfig \<Rightarrow>
                            (case filter_includes entityConfig ids of
                               None \<Rightarrow> ids
                             | Some kept \<Rightarrow> kept))
                     else ids)
              else ids
          | _ \<Rightarrow> ids))"

text \<open>
  \<^verbatim>\<open>loadSlotComponents\<close>, given the response to \<^verbatim>\<open>fetch("/api/plugins")\<close>. The result is
  the list passed to \<^verbatim>\<open>setComponents\<close>, or the text passed to \<^verbatim>\<open>setError\<close>: a response
  without \<^verbatim>\<open>plugins\<close> makes \<^verbatim>\<open>plugins.filter\<close> throw into the outer \<^verbatim>\<open>catch\<close>.
\<close>

definition loadSlotComponents ::
  "(string \<Rightarrow> 'c PluginModule option) \<Rightarrow> (string \<Rightarrow> json option) \<Rightarrow> string option \<Rightarrow> string \<Rightarrow>
   EntityType option \<Rightarrow> string option \<Rightarrow> PluginsBody response \<Rightarrow> 'c browser \<Rightarrow>
   (string + 'c list) \<times> 'c browser" where
  "loadSlotComponents imp JSON_parse session slotName entityType entityId resp b =
     (case resp of
        Status200 body \<Rightarrow>
          (case loadComponents imp slotName
                  (activePluginIds JSON_parse session slotName entityType entityId (plugins body) b)
                  b of
             (loadedComponents, b') \<Rightarrow> (Inr loadedComponents, b'))
      | _ \<Rightarrow>
          (Inl ''Failed to load plugins'',
           consoleEmit (ConsoleError ''Failed to load slot components:'') b))"

text \<open>
  What the switch and the module give for a plugin and a slot when nothing is cached,
  and the cache invariant: every cached component is that one. The cache starts empty
  and only \<^verbatim>\<open>loadPluginComponent\<close> writes to it.
\<close>

definition slotComponent ::
  "(string \<Rightarrow> 'c PluginModule option) \<Rightarrow> string \<Rightarrow> string \<Rightarrow> 'c option" where
  "slotComponent imp slotName pluginId =
     (case importPlugin imp pluginId of
        Some (Some pluginModule) \<Rightarrow> map_of (pm_components pluginModule) slotName
      | _ \<Rightarrow> None)"

definition cache_ok :: "(string \<Rightarrow> 'c PluginModule option) \<Rightarrow> 'c browser \<Rightarrow> bool" where
  "cache_ok imp b \<longleftrightarrow>
     list_all (\<lambda>entry.
        list_all (\<lambda>sc. slotComponent imp (fst sc) (fst entry) = Some (snd sc)) (snd entry))
       (clientCache b)"

section \<open>The override editor and the plugins page\<close>

text \<open>
  \<^verbatim>\<open>saveEntityConfig\<close> of \<^verbatim>\<open>components/PluginCustomizer.tsx\<close>: the override list is written
  to \<^verbatim>\<open>localStorage\<close> as JSON text (\<open>JSON_stringify\<close> is the platform's printer); the page
  is then reloaded.
\<close>

definition saveEntityConfig ::
  "(json \<Rightarrow> string) \<Rightarrow> EntityType \<Rightarrow> string \<Rightarrow> string list \<Rightarrow> 'c browser \<Rightarrow> 'c browser" where
  "saveEntityConfig JSON_stringify entityType entityId newConfig b =
     b\<lparr>localStorage :=
         (localStorage b)(storageKey entityType entityId \<mapsto>
            JSON_stringify (JArray (map JString newConfig)))\<rparr>"

text \<open>
  The server and one browser. \<^verbatim>\<open>uninstallPlugin\<close> of \<^verbatim>\<open>app/plugins/page.tsx\<close> puts the plugin
  id, as it is, into the query string of a \<^verbatim>\<open>DELETE\<close> request; the handler reads the
  parameter back with \<^verbatim>\<open>searchParams.get\<close>. \<open>searchParam\<close> is the platform's part in
  between: for an id, what the handler reads from the URL \<^verbatim>\<open>/api/plugins?pluginId=${pluginId}\<close>
  (\<open>None\<close> for \<^verbatim>\<open>null\<close>). The page then only fetches the plugin list again for display, so
  nothing of the browser state changes.
\<close>

record 'c world =
  server :: db
  client :: "'c browser"

definition uninstallPlugin ::
  "(string \<Rightarrow> string option) \<Rightarrow> delete_fault \<Rightarrow> string option \<Rightarrow> string \<Rightarrow> 'c world \<Rightarrow>
   unit response \<times> 'c world" where
  "uninstallPlugin searchParam fault session pluginId w =
     (case api_plugins_DELETE fault session (searchParam pluginId) (server w) of
        (r, d) \<Rightarrow> (r, w\<lparr>server := d\<rparr>))"

section \<open>The plugins of the repository\<close>

text \<open>
  The manifests and default exports of \<^verbatim>\<open>plugins/company-metrics\<close>,
  \<^verbatim>\<open>plugins/investor-insights\<close> and \<^verbatim>\<open>plugins/timeline\<close>, with the components named as
  in the source. None of the three modules has lifecycle hooks.
\<close>

datatype component =
    QuickStatsCard
  | CompanyDetailsSection
  | PortfolioStats
  | InvestorPortfolioSection
  | RecentActivity
  | MilestonesTimeline
  | CompanyJourneySummary

definition companyMetricsManifest :: PluginManifest where
  "companyMetricsManifest =
     \<lparr>m_id = ''company-metrics'', m_name = ''Company Metrics'',
      m_description = ''Displays funding stats, health score, and growth charts for companies'',
      m_version = ''1.0.0'', m_author = Some ''Metior Team'', m_icon = Some ''BarChart3'',
      m_entityTypes = [company],
      m_slots =
        [\<lparr>s_name = ''CompanyProfile.Header'',
          s_description = ''Quick stats cards showing funding totals''\<rparr>,
         \<lparr>s_name = ''CompanyProfile.Details'',
          s_description = ''Funding journey chart and health score''\<rparr>],
      m_hooks = None, m_routes = None\<rparr>"

definition investorInsightsManifest :: PluginManifest where
  "investorInsightsManifest =
     \<lparr>m_id = ''investor-insights'', m_name = ''Investor Insights'',
      m_description =
        ''Portfolio analytics, sector distribution, and investment timeline for investors'',
      m_version = ''1.0.0'', m_author = Some ''Metior Team'', m_icon = Some ''PieChart'',
      m_entityTypes = [investor],
      m_slots =
        [\<lparr>s_name = ''InvestorProfile.Header'', s_description = ''Portfolio stats cards''\<rparr>,
         \<lparr>s_name = ''InvestorProfile.Portfolio'',
          s_description = ''Sector charts and investment timeline''\<rparr>],
      m_hooks = None, m_routes = None\<rparr>"

definition timelineManifest :: PluginManifest where
  "timelineManifest =
     \<lparr>m_id = ''timeline'', m_name = ''Timeline'',
      m_description =
        ''Displays milestones, key events, and company history in a beautiful timeline'',
      m_version = ''1.0.0'', m_author = Some ''Metior Team'', m_icon = Some ''Calendar'',
      m_entityTypes = [company],
      m_slots =
        [\<lparr>s_name = ''CompanyProfile.Header'',
          s_description = ''Recent activity summary in company header''\<rparr>,
         \<lparr>s_name = ''CompanyProfile.Details'',
          s_description = ''Detailed timeline and journey summary''\<rparr>],
      m_hooks = None, m_routes = None\<rparr>"

definition companyMetricsPlugin :: "component PluginModule" where
  "companyMetricsPlugin =
     \<lparr>pm_manifest = companyMetricsManifest,
      pm_components =
        [(''CompanyProfile.Header'', QuickStatsCard),
         (''CompanyProfile.Details'', CompanyDetailsSection)],
      pm_initialize = None, pm_cleanup = None\<rparr>"

definition investorInsightsPlugin :: "component PluginModule" where
  "investorInsightsPlugin =
     \<lparr>pm_manifest = investorInsightsManifest,
      pm_components =
        [(''InvestorProfile.Header'', PortfolioStats),
         (''InvestorProfile.Portfolio'', InvestorPortfolioSection)],
      pm_initialize = None, pm_cleanup = None\<rparr>"

definition timelinePlugin :: "component PluginModule" where
  "timelinePlugin =
     \<lparr>pm_manifest = timelineManifest,
      pm_components =
        [(''CompanyProfile.Header'', RecentActivity),
         (''CompanyProfile.Details'', MilestonesTimeline),
         (''CompanyProfile.Summary'', CompanyJourneySummary)],
      pm_initialize = None, pm_cleanup = None\<rparr>"

text \<open>The bundle of the repository: the default export behind each module specifier.\<close>

definition pluginBundle :: "string \<Rightarrow> component PluginModule option" where
  "pluginBundle spec =
     (if spec = ''@/plugins/company-metrics'' then Some companyMetricsPlugin
      else if spec = ''@/plugins/investor-insights'' then Some investorInsightsPlugin
      else if spec = ''@/plugins/timeline'' then Some timelinePlugin
      else None)"

text \<open>
  \<^verbatim>\<open>initializeAvailablePlugins\<close> of \<^verbatim>\<open>lib/plugin-system/init\<close>, which the API route imports,
  and the registration loop of \<^verbatim>\<open>loadPlugins\<close> in \<^verbatim>\<open>lib/plugin-system/loader.ts\<close>.
\<close>

definition initializeAvailablePlugins :: "'c store \<Rightarrow> 'c store" where
  "initializeAvailablePlugins s =
     emit (ConsoleLog ''Plugin registration complete'')
       (registerAvailablePlugin investorInsightsManifest
          (registerAvailablePlugin companyMetricsManifest
             (emit (ConsoleLog ''Registering available plugins...'') s)))"

definition loadPlugins :: "'c store \<Rightarrow> 'c store" where
  "loadPlugins s =
     registerAll [companyMetricsManifest, investorInsightsManifest, timelineManifest] s"

text \<open>
  The installations that \<^verbatim>\<open>scripts/seed.ts\<close> creates for a user, after it has emptied
  both tables; and a browser in which the page has just been loaded and nothing is stored.
\<close>

definition seedDb :: "string \<Rightarrow> db" where
  "seedDb uid =
     \<lparr>pluginInstallation =
        [\<lparr>i_id = ''1'', i_userId = uid, i_pluginId = ''company-metrics'', i_enabled = True,
          i_settings = JObject []\<rparr>,
         \<lparr>i_id = ''2'', i_userId = uid, i_pluginId = ''investor-insights'', i_enabled = True,
          i_settings = JObject []\<rparr>],
      entityPluginConfig = []\<rparr>"

definition emptyBrowser :: "'c browser" where
  "emptyBrowser = \<lparr>clientCache = [], localStorage = Map.empty, console = []\<rparr>"


text \<open>
  The handlers create an installation row only for a session with a non-empty user id and
  for a non-empty plugin id, and never change these two fields.
\<close>

definition wf_db :: "db \<Rightarrow> bool" where
  "wf_db d \<longleftrightarrow>
     list_all (\<lambda>i. truthy (i_userId i) \<and> truthy (i_pluginId i)) (pluginInstallation d)"

text \<open>
  An example after scenarios A and B of the specification: the registry of
  \<^verbatim>\<open>loadPlugins\<close>; the seeded user \<^verbatim>\<open>u1\<close>, who then installs \<^verbatim>\<open>timeline\<close>; and a browser
  whose override for the company \<^verbatim>\<open>acme\<close> lists \<^verbatim>\<open>company-metrics\<close> only. \<open>acmeParse\<close> is
  \<^verbatim>\<open>JSON.parse\<close> on that one text.
\<close>

definition acmeRegistry :: "component store" where
  "acmeRegistry = loadPlugins emptyStore"

definition acmeDb :: db where
  "acmeDb = snd (api_plugins_POST acmeRegistry ''3'' (JObject []) (Some ''u1'') (Some ''timeline'')
                   (seedDb ''u1''))"

definition acmeBrowser :: "component browser" where
  "acmeBrowser =
     emptyBrowser\<lparr>localStorage := [''entity-plugins:company:acme'' \<mapsto> ''[\"company-metrics\"]'']\<rparr>"

definition acmeParse :: "string \<Rightarrow> json option" where
  "acmeParse = [''[\"company-metrics\"]'' \<mapsto> JArray [JString ''company-metrics'']]"

text \<open>Scenario C: the user then disables \<^verbatim>\<open>company-metrics\<close>.\<close>

definition disabledDb :: db where
  "disabledDb = snd (api_plugins_PATCH (Some ''u1'') (Some ''company-metrics'') (Some False) None
                       acmeDb)"

text \<open>
  Instead, the user stores settings for \<^verbatim>\<open>company-metrics\<close> and disables it; and a world in
  which the server also holds an \<^verbatim>\<open>entityPluginConfig\<close> row of the user for that plugin.
\<close>

definition configuredDb :: db where
  "configuredDb =
     snd (api_plugins_PATCH (Some ''u1'') (Some ''company-metrics'') (Some False)
            (Some (JObject [(''theme'', JString ''dark'')])) acmeDb)"

definition acmeWorld :: "component world" where
  "acmeWorld =
     \<lparr>server = acmeDb\<lparr>entityPluginConfig :=
                  [\<lparr>c_userId = ''u1'', c_pluginId = ''company-metrics'', c_entityType = company,
                    c_entityId = ''acme''\<rparr>]\<rparr>,
      client = acmeBrowser\<rparr>"

text \<open>
  The registry that the API route serves; a browser in which \<^verbatim>\<open>disableAll\<close> of the override
  editor has stored the empty list for the company \<^verbatim>\<open>acme\<close>, and one in which the stored
  list names \<^verbatim>\<open>timeline\<close> only. \<open>overrideParse\<close> is \<^verbatim>\<open>JSON.parse\<close> on these two texts.
\<close>

definition servedRegistry :: "component store" where
  "servedRegistry = initializeAvailablePlugins emptyStore"

definition clearedBrowser :: "component browser" where
  "clearedBrowser = emptyBrowser\<lparr>localStorage := [''entity-plugins:company:acme'' \<mapsto> ''[]'']\<rparr>"

definition timelineBrowser :: "component browser" where
  "timelineBrowser =
     emptyBrowser\<lparr>localStorage := [''entity-plugins:company:acme'' \<mapsto> ''[\"timeline\"]'']\<rparr>"

definition overrideParse :: "string \<Rightarrow> json option" where
  "overrideParse =
     [''[]'' \<mapsto> JArray [], ''[\"timeline\"]'' \<mapsto> JArray [JString ''timeline'']]"

text \<open>
  The query string on two ids: \<^verbatim>\<open>company-metrics\<close> is read back as it is, and \<^verbatim>\<open>a+b\<close> is
  read back as \<^verbatim>\<open>a b\<close>, since a plus sign in a query string stands for a space. A
  database with an installation of each of the two ids \<^verbatim>\<open>a+b\<close> and \<^verbatim>\<open>a b\<close>.
\<close>

definition acmeQuery :: "string \<Rightarrow> string option" where
  "acmeQuery = [''company-metrics'' \<mapsto> ''company-metrics'', ''a+b'' \<mapsto> ''a b'']"

definition plusWorld :: "component world" where
  "plusWorld =
     \<lparr>server =
        \<lparr>pluginInstallation =
           [\<lparr>i_id = ''1'', i_userId = ''u1'', i_pluginId = ''a+b'', i_enabled = True,
             i_settings = JObject []\<rparr>,
            \<lparr>i_id = ''2'', i_userId = ''u1'', i_pluginId = ''a b'', i_enabled = True,
             i_settings = JObject []\<rparr>],
         entityPluginConfig = []\<rparr>,
      client = emptyBrowser\<rparr>"

section \<open>The Map\<close>

lemma map_of_Map_set: "map_of (Map_set k v m) = (map_of m)(k \<mapsto> v)"
  by (induction m) (auto simp: fun_eq_iff)

lemma Map_set_fresh: "map_of m k = None \<Longrightarrow> Map_set k v m = m @ [(k, v)]"
  by (induction m) (auto split: if_splits)

section \<open>The registry keeps one manifest per id\<close>

lemma wf_registry_empty: "wf_registry emptyStore"
  by (simp add: wf_registry_def emptyStore_def)

lemma wf_registry_register: "wf_registry s \<Longrightarrow> wf_registry (registerAvailablePlugin m s)"
  by (auto simp: wf_registry_def registerAvailablePlugin_def emit_def Map_has_def Map_set_fresh
      map_of_eq_None_iff)

lemma wf_registry_registerAll: "wf_registry s \<Longrightarrow> wf_registry (registerAll ms s)"
  unfolding registerAll_def
  by (induction ms arbitrary: s) (auto simp: wf_registry_register)

lemma lookup_register:
  "map_of (availablePlugins (registerAvailablePlugin m s)) k =
     (case map_of (availablePlugins s) k of
        Some x \<Rightarrow> Some x
      | None \<Rightarrow> if m_id m = k then Some m else None)"
  by (auto simp: registerAvailablePlugin_def emit_def Map_has_def map_of_Map_set
      split: option.splits)

lemma lookup_registerAll:
  "map_of (availablePlugins (registerAll ms s)) k =
     (case map_of (availablePlugins s) k of
        Some x \<Rightarrow> Some x
      | None \<Rightarrow> find (\<lambda>x. m_id x = k) ms)"
  unfolding registerAll_def
  by (induction ms arbitrary: s) (auto simp: lookup_register split: option.splits)

lemma filter_values_unique:
  assumes "distinct (map fst kvs)"
    and "list_all (\<lambda>kv. f (snd kv) = fst kv) kvs"
    and "map_of kvs k = Some v"
  shows "filter (\<lambda>x. f x = k) (map snd kvs) = [v]"
  using assms
proof (induction kvs)
  case Nil
  then show ?case by simp
next
  case (Cons a kvs)
  show ?case
  proof (cases "fst a = k")
    case True
    with Cons.prems have "\<forall>kv\<in>set kvs. f (snd kv) \<noteq> k"
      by (force simp: list_all_iff)
    then have "filter (\<lambda>x. f x = k) (map snd kvs) = []"
      by (auto simp: filter_empty_conv)
    with True Cons.prems show ?thesis by (cases a) auto
  next
    case False
    with Cons show ?thesis by (cases a) auto
  qed
qed

text \<open>
  C3. After any sequence of registrations into the empty registry, the listed manifests
  have pairwise different ids. For an id that occurs in the sequence, the list holds
  exactly one manifest with it, the first of the sequence with that id, and the lookup
  returns it; registering any manifest with that id once more changes nothing but the
  console, where a warning is printed.
\<close>

theorem registry_first_registration_wins:
  fixes ms :: "PluginManifest list" and m :: PluginManifest
  defines "s \<equiv> registerAll ms (emptyStore :: 'c store)"
  shows "distinct (map m_id (getAvailablePlugins s)) \<and>
         (m_id m \<in> m_id ` set ms \<longrightarrow>
            (\<exists>first. find (\<lambda>x. m_id x = m_id m) ms = Some first \<and>
               filter (\<lambda>x. m_id x = m_id m) (getAvailablePlugins s) = [first] \<and>
               getPluginManifest s (m_id m) = Some first) \<and>
            registerAvailablePlugin m s =
              emit (ConsoleWarn (''Plugin \"'' @ m_id m @ ''\" is already registered'')) s)"
proof (intro conjI impI)
  have wf: "wf_registry s"
    unfolding s_def by (rule wf_registry_registerAll [OF wf_registry_empty])
  then have "map m_id (getAvailablePlugins s) = map fst (availablePlugins s)"
    by (auto simp: wf_registry_def getAvailablePlugins_def Map_values_def list_all_iff)
  with wf show "distinct (map m_id (getAvailablePlugins s))"
    by (simp add: wf_registry_def)
  assume "m_id m \<in> m_id ` set ms"
  then obtain first where first: "find (\<lambda>x. m_id x = m_id m) ms = Some first"
    by (cases "find (\<lambda>x. m_id x = m_id m) ms") (auto simp: find_None_iff)
  have look: "map_of (availablePlugins s) (m_id m) = Some first"
    unfolding s_def by (simp add: lookup_registerAll emptyStore_def first)
  have "filter (\<lambda>x. m_id x = m_id m) (getAvailablePlugins s) = [first]"
    unfolding getAvailablePlugins_def Map_values_def
    using wf look by (intro filter_values_unique) (auto simp: wf_registry_def)
  with first look
  show "\<exists>first. find (\<lambda>x. m_id x = m_id m) ms = Some first \<and>
               filter (\<lambda>x. m_id x = m_id m) (getAvailablePlugins s) = [first] \<and>
               getPluginManifest s (m_id m) = Some first"
    by (simp add: getPluginManifest_def Map_get_def)
  from look show "registerAvailablePlugin m s =
           emit (ConsoleWarn (''Plugin \"'' @ m_id m @ ''\" is already registered'')) s"
    by (simp add: registerAvailablePlugin_def Map_has_def)
qed

theorem registry_first_registration_wins_witness:
  "m_id (companyMetricsManifest\<lparr>m_name := ''Copy''\<rparr>)
     \<in> m_id ` set [companyMetricsManifest, timelineManifest] \<and>
   map m_id (getAvailablePlugins
     (registerAll [companyMetricsManifest, timelineManifest] (emptyStore :: component store)))
     = [''company-metrics'', ''timeline''] \<and>
   filter (\<lambda>x. m_id x = ''company-metrics'')
     (getAvailablePlugins
        (registerAll [companyMetricsManifest, timelineManifest] (emptyStore :: component store)))
     = [companyMetricsManifest] \<and>
   getAvailablePlugins
     (registerAvailablePlugin (companyMetricsManifest\<lparr>m_name := ''Copy''\<rparr>)
        (registerAll [companyMetricsManifest, timelineManifest] (emptyStore :: component store)))
     = getAvailablePlugins
         (registerAll [companyMetricsManifest, timelineManifest] (emptyStore :: component store))"
proof -
  have h: "m_id (companyMetricsManifest\<lparr>m_name := ''Copy''\<rparr>)
     \<in> m_id ` set [companyMetricsManifest, timelineManifest]"
    by simp
  have ids: "map m_id (getAvailablePlugins
     (registerAll [companyMetricsManifest, timelineManifest] (emptyStore :: component store)))
     = [''company-metrics'', ''timeline'']"
    by (simp add: registerAll_def registerAvailablePlugin_def emptyStore_def emit_def Map_has_def
        getAvailablePlugins_def Map_values_def companyMetricsManifest_def timelineManifest_def)
  from registry_first_registration_wins
         [where 'c = component and m = "companyMetricsManifest\<lparr>m_name := ''Copy''\<rparr>"
            and ms = "[companyMetricsManifest, timelineManifest]"] h
  have "filter (\<lambda>x. m_id x = ''company-metrics'')
     (getAvailablePlugins
        (registerAll [companyMetricsManifest, timelineManifest] (emptyStore :: component store)))
     = [companyMetricsManifest]"
    and "registerAvailablePlugin (companyMetricsManifest\<lparr>m_name := ''Copy''\<rparr>)
        (registerAll [companyMetricsManifest, timelineManifest] (emptyStore :: component store))
     = emit (ConsoleWarn (''Plugin \"'' @ ''company-metrics'' @ ''\" is already registered''))
        (registerAll [companyMetricsManifest, timelineManifest] (emptyStore :: component store))"
    by (simp_all add: companyMetricsManifest_def timelineManifest_def)
  with h ids show ?thesis
    by (simp add: getAvailablePlugins_def emit_def)
qed

lemma reachable_wf_registry: "reachable s \<Longrightarrow> wf_registry s"
proof (induction rule: reachable.induct)
  case reachable_empty
  show ?case by (rule wf_registry_empty)
next
  case (reachable_register s manifest)
  then show ?case by (simp add: wf_registry_register)
next
  case (reachable_load s imp pluginId)
  then show ?case
    by (auto simp: wf_registry_def loadPluginModule_def emit_def Let_def
        split: option.splits hook.splits)
next
  case (reachable_unload s pluginId)
  then show ?case
    by (auto simp: wf_registry_def unloadPluginModule_def emit_def Let_def split: option.splits)
qed

section \<open>The module loader\<close>

lemma keys_Map_delete: "map fst (Map_delete k m) = filter (\<lambda>k'. k' \<noteq> k) (map fst m)"
  by (induction m) (auto simp: Map_delete_def)

lemma loadPluginModule_maps:
  "(loadedModules (snd (loadPluginModule imp pid s)) = loadedModules s \<and>
    componentCache (snd (loadPluginModule imp pid s)) = componentCache s) \<or>
   (\<exists>m. importPlugin imp pid = Some (Some m) \<and> map_of (loadedModules s) pid = None \<and>
      loadedModules (snd (loadPluginModule imp pid s)) = loadedModules s @ [(pid, m)] \<and>
      componentCache (snd (loadPluginModule imp pid s)) =
        Map_set pid (Map_new (pm_components m)) (componentCache s))"
  by (auto simp: loadPluginModule_def Map_has_def emit_def Let_def Map_set_fresh
      split: option.splits hook.splits)

lemma importPlugin_known:
  "importPlugin imp pid = Some r \<Longrightarrow> pid = ''company-metrics'' \<or> pid = ''investor-insights''"
  by (auto simp: importPlugin_def split: if_splits)

lemma reachable_loaded_known:
  "reachable s \<Longrightarrow> k \<in> fst ` set (loadedModules s) \<Longrightarrow>
   k = ''company-metrics'' \<or> k = ''investor-insights''"
proof (induction arbitrary: k rule: reachable.induct)
  case reachable_empty
  then show ?case by (simp add: emptyStore_def)
next
  case (reachable_register s manifest)
  then show ?case by (auto simp: registerAvailablePlugin_def emit_def split: if_splits)
next
  case (reachable_load s imp pluginId)
  from loadPluginModule_maps [of imp pluginId s] show ?case
  proof
    assume "loadedModules (snd (loadPluginModule imp pluginId s)) = loadedModules s \<and>
      componentCache (snd (loadPluginModule imp pluginId s)) = componentCache s"
    with reachable_load show ?thesis by simp
  next
    assume "\<exists>m. importPlugin imp pluginId = Some (Some m) \<and> map_of (loadedModules s) pluginId = None \<and>
      loadedModules (snd (loadPluginModule imp pluginId s)) = loadedModules s @ [(pluginId, m)] \<and>
      componentCache (snd (loadPluginModule imp pluginId s)) =
        Map_set pluginId (Map_new (pm_components m)) (componentCache s)"
    then obtain m where m: "importPlugin imp pluginId = Some (Some m)"
      "loadedModules (snd (loadPluginModule imp pluginId s)) = loadedModules s @ [(pluginId, m)]"
      by blast
    from reachable_load.prems m(2) have "k \<in> fst ` set (loadedModules s) \<or> k = pluginId"
      by auto
    with reachable_load.IH importPlugin_known [OF m(1)] show ?thesis by blast
  qed
next
  case (reachable_unload s pluginId)
  then show ?case
    by (auto simp: unloadPluginModule_def Map_delete_def emit_def Let_def split: option.splits)
qed

lemma reachable_cache_keys:
  "reachable s \<Longrightarrow> map fst (componentCache s) = map fst (loadedModules s)"
proof (induction rule: reachable.induct)
  case reachable_empty
  then show ?case by (simp add: emptyStore_def)
next
  case (reachable_register s manifest)
  then show ?case by (auto simp: registerAvailablePlugin_def emit_def split: if_splits)
next
  case (reachable_load s imp pluginId)
  from loadPluginModule_maps [of imp pluginId s] show ?case
  proof
    assume "loadedModules (snd (loadPluginModule imp pluginId s)) = loadedModules s \<and>
      componentCache (snd (loadPluginModule imp pluginId s)) = componentCache s"
    with reachable_load show ?thesis by simp
  next
    assume "\<exists>m. importPlugin imp pluginId = Some (Some m) \<and> map_of (loadedModules s) pluginId = None \<and>
      loadedModules (snd (loadPluginModule imp pluginId s)) = loadedModules s @ [(pluginId, m)] \<and>
      componentCache (snd (loadPluginModule imp pluginId s)) =
        Map_set pluginId (Map_new (pm_components m)) (componentCache s)"
    then obtain m where m: "map_of (loadedModules s) pluginId = None"
      "loadedModules (snd (loadPluginModule imp pluginId s)) = loadedModules s @ [(pluginId, m)]"
      "componentCache (snd (loadPluginModule imp pluginId s)) =
        Map_set pluginId (Map_new (pm_components m)) (componentCache s)"
      by blast
    from m(1) reachable_load.IH have "map_of (componentCache s) pluginId = None"
      by (simp add: map_of_eq_None_iff flip: set_map)
    with m reachable_load.IH show ?thesis by (simp add: Map_set_fresh)
  qed
next
  case (reachable_unload s pluginId)
  then show ?case
    by (auto simp: unloadPluginModule_def keys_Map_delete emit_def Let_def split: option.splits)
qed

text \<open>
  C6. In every store that the exported functions can produce: loading an id outside the
  two cases of the switch returns \<open>None\<close> (the \<^verbatim>\<open>null\<close> of the source) and only prints a
  warning. When the module of an id that is not loaded has an \<^verbatim>\<open>initialize\<close> that rejects,
  the load returns \<open>None\<close>, both maps are as before, so the plugin is not loaded and has no
  cached component, and the trace records the call and the error. A later load of the
  same id whose \<^verbatim>\<open>initialize\<close> resolves imports again, calls \<^verbatim>\<open>initialize\<close> again, and
  returns the module.
\<close>

theorem load_failure_is_not_found:
  assumes "reachable s"
  shows "(pluginId \<noteq> ''company-metrics'' \<and> pluginId \<noteq> ''investor-insights'' \<longrightarrow>
            loadPluginModule imp pluginId s =
              (None, emit (ConsoleWarn (''Unknown plugin: '' @ pluginId)) s)) \<and>
         (\<not> isPluginLoaded s pluginId \<and> importPlugin imp pluginId = Some (Some m) \<and>
          pm_initialize m = Some Rejects \<longrightarrow>
            (case loadPluginModule imp pluginId s of
               (r, s') \<Rightarrow>
                 r = None \<and> \<not> isPluginLoaded s' pluginId \<and>
                 loadedModules s' = loadedModules s \<and> componentCache s' = componentCache s \<and>
                 getPluginComponent s' pluginId slotName = None \<and>
                 trace s' = trace s @ [Initialize pluginId,
                   ConsoleError (''Failed to load plugin \"'' @ pluginId @ ''\":'')] \<and>
                 (importPlugin imp' pluginId = Some (Some m') \<and> pm_initialize m' = Some Resolves \<longrightarrow>
                    (case loadPluginModule imp' pluginId s' of
                       (r2, s2) \<Rightarrow>
                         r2 = Some m' \<and> isPluginLoaded s2 pluginId \<and>
                         trace s2 = trace s' @ [Initialize pluginId]))))"
proof (intro conjI impI)
  assume unknown: "pluginId \<noteq> ''company-metrics'' \<and> pluginId \<noteq> ''investor-insights''"
  with reachable_loaded_known [OF assms, of pluginId] have "map_of (loadedModules s) pluginId = None"
    by (auto simp: map_of_eq_None_iff)
  with unknown show "loadPluginModule imp pluginId s =
      (None, emit (ConsoleWarn (''Unknown plugin: '' @ pluginId)) s)"
    by (simp add: loadPluginModule_def Map_has_def importPlugin_def)
next
  assume h: "\<not> isPluginLoaded s pluginId \<and> importPlugin imp pluginId = Some (Some m) \<and>
          pm_initialize m = Some Rejects"
  then have nl: "map_of (loadedModules s) pluginId = None"
    by (simp add: isPluginLoaded_def Map_has_def)
  with reachable_cache_keys [OF assms] have nc: "map_of (componentCache s) pluginId = None"
    by (simp add: map_of_eq_None_iff flip: set_map)
  define s' where "s' = emit (ConsoleError (''Failed to load plugin \"'' @ pluginId @ ''\":''))
                           (emit (Initialize pluginId) s)"
  have load: "loadPluginModule imp pluginId s = (None, s')"
    using h nl by (simp add: loadPluginModule_def Map_has_def s'_def)
  have s'_maps: "loadedModules s' = loadedModules s" "componentCache s' = componentCache s"
    "trace s' = trace s @ [Initialize pluginId,
                   ConsoleError (''Failed to load plugin \"'' @ pluginId @ ''\":'')]"
    by (simp_all add: s'_def emit_def)
  have again: "importPlugin imp' pluginId = Some (Some m') \<and> pm_initialize m' = Some Resolves \<longrightarrow>
                    (case loadPluginModule imp' pluginId s' of
                       (r2, s2) \<Rightarrow>
                         r2 = Some m' \<and> isPluginLoaded s2 pluginId \<and>
                         trace s2 = trace s' @ [Initialize pluginId])"
    using nl s'_maps
    by (auto simp: loadPluginModule_def Map_has_def isPluginLoaded_def emit_def Let_def
        map_of_Map_set)
  from load s'_maps nl nc again
  show "case loadPluginModule imp pluginId s of
               (r, s') \<Rightarrow>
                 r = None \<and> \<not> isPluginLoaded s' pluginId \<and>
                 loadedModules s' = loadedModules s \<and> componentCache s' = componentCache s \<and>
                 getPluginComponent s' pluginId slotName = None \<and>
                 trace s' = trace s @ [Initialize pluginId,
                   ConsoleError (''Failed to load plugin \"'' @ pluginId @ ''\":'')] \<and>
                 (importPlugin imp' pluginId = Some (Some m') \<and> pm_initialize m' = Some Resolves \<longrightarrow>
                    (case loadPluginModule imp' pluginId s' of
                       (r2, s2) \<Rightarrow>
                         r2 = Some m' \<and> isPluginLoaded s2 pluginId \<and>
                         trace s2 = trace s' @ [Initialize pluginId]))"
    by (simp add: isPluginLoaded_def Map_has_def getPluginComponent_def Map_get_def)
qed

theorem load_failure_is_not_found_witness:
  "reachable (emptyStore :: component store) \<and>
   loadPluginModule pluginBundle ''timeline'' (emptyStore :: component store) =
     (None, emit (ConsoleWarn ''Unknown plugin: timeline'') emptyStore) \<and>
   \<not> isPluginLoaded (emptyStore :: component store) ''company-metrics'' \<and>
   fst (loadPluginModule
          (pluginBundle(''@/plugins/company-metrics'' :=
             Some (companyMetricsPlugin\<lparr>pm_initialize := Some Rejects\<rparr>)))
          ''company-metrics'' emptyStore) = None \<and>
   \<not> isPluginLoaded
       (snd (loadPluginModule
          (pluginBundle(''@/plugins/company-metrics'' :=
             Some (companyMetricsPlugin\<lparr>pm_initialize := Some Rejects\<rparr>)))
          ''company-metrics'' emptyStore)) ''company-metrics'' \<and>
   fst (loadPluginModule
          (pluginBundle(''@/plugins/company-metrics'' :=
             Some (companyMetricsPlugin\<lparr>pm_initialize := Some Resolves\<rparr>)))
          ''company-metrics''
          (snd (loadPluginModule
             (pluginBundle(''@/plugins/company-metrics'' :=
                Some (companyMetricsPlugin\<lparr>pm_initialize := Some Rejects\<rparr>)))
             ''company-metrics'' emptyStore)))
     = Some (companyMetricsPlugin\<lparr>pm_initialize := Some Resolves\<rparr>)"
proof -
  let ?bad = "pluginBundle(''@/plugins/company-metrics'' :=
                Some (companyMetricsPlugin\<lparr>pm_initialize := Some Rejects\<rparr>))"
  let ?good = "pluginBundle(''@/plugins/company-metrics'' :=
                Some (companyMetricsPlugin\<lparr>pm_initialize := Some Resolves\<rparr>))"
  have r: "reachable (emptyStore :: component store)"
    by (rule reachable_empty)
  have nl: "\<not> isPluginLoaded (emptyStore :: component store) ''company-metrics''"
    by (simp add: isPluginLoaded_def Map_has_def emptyStore_def)
  have bad: "importPlugin ?bad ''company-metrics'' =
      Some (Some (companyMetricsPlugin\<lparr>pm_initialize := Some Rejects\<rparr>))"
    by (simp add: importPlugin_def)
  have good: "importPlugin ?good ''company-metrics'' =
      Some (Some (companyMetricsPlugin\<lparr>pm_initialize := Some Resolves\<rparr>))"
    by (simp add: importPlugin_def)
  from load_failure_is_not_found [OF r, of "''timeline''" pluginBundle]
  have unknown: "loadPluginModule pluginBundle ''timeline'' (emptyStore :: component store) =
     (None, emit (ConsoleWarn ''Unknown plugin: timeline'') emptyStore)"
    by simp
  from load_failure_is_not_found
         [OF r, of "''company-metrics''" ?bad
            "companyMetricsPlugin\<lparr>pm_initialize := Some Rejects\<rparr>"
            "''CompanyProfile.Header''" ?good
            "companyMetricsPlugin\<lparr>pm_initialize := Some Resolves\<rparr>"]
       nl bad good
  have "fst (loadPluginModule ?bad ''company-metrics'' emptyStore) = None \<and>
        \<not> isPluginLoaded (snd (loadPluginModule ?bad ''company-metrics'' emptyStore))
            ''company-metrics'' \<and>
        fst (loadPluginModule ?good ''company-metrics''
               (snd (loadPluginModule ?bad ''company-metrics'' emptyStore)))
          = Some (companyMetricsPlugin\<lparr>pm_initialize := Some Resolves\<rparr>)"
    by (simp add: case_prod_beta)
  with r nl unknown show ?thesis by blast
qed

section \<open>The plugin list and the component loop\<close>

lemma map_of_Map_new: "map_of (Map_new xs) = map_of (rev xs)"
proof -
  have "map_of (fold (\<lambda>kv m. Map_set (fst kv) (snd kv) m) xs m) = map_of m ++ map_of (rev xs)"
    for m :: "('a \<times> 'b) list"
  proof (induction xs arbitrary: m)
    case Nil
    then show ?case by simp
  next
    case (Cons a xs)
    have "map_of (fold (\<lambda>kv m. Map_set (fst kv) (snd kv) m) (a # xs) m) =
          map_of (Map_set (fst a) (snd a) m) ++ map_of (rev xs)"
      using Cons.IH [of "Map_set (fst a) (snd a) m"] by simp
    also have "\<dots> = (map_of m)(fst a \<mapsto> snd a) ++ map_of (rev xs)"
      by (simp only: map_of_Map_set)
    also have "\<dots> = map_of m ++ map_of (rev (a # xs))"
      by (cases a) (auto simp: fun_eq_iff map_add_def split: option.splits)
    finally show ?case .
  qed
  from this [of "[]"] show ?thesis by (simp add: Map_new_def)
qed

lemma Map_get_installationMap:
  assumes "Map_get (installationMap session d) pid = Some i"
  shows "hasUser session \<and> i \<in> set (pluginInstallation d) \<and> session = Some (i_userId i) \<and>
         i_pluginId i = pid"
proof -
  from assms have "(pid, i) \<in> set (map (\<lambda>i. (i_pluginId i, i)) (installationsOf session d))"
    by (auto simp: Map_get_def installationMap_def map_of_Map_new dest!: map_of_SomeD)
  then show ?thesis
    by (auto simp: installationsOf_def split: option.splits if_splits)
qed

lemma installationMap_anonymous: "\<not> hasUser session \<Longrightarrow> installationMap session d = []"
  by (cases session) (auto simp: installationMap_def installationsOf_def Map_new_def)

lemma pluginInfo_sel [simp]:
  "m_id (pluginInfo im m) = m_id m"
  "m_slots (pluginInfo im m) = m_slots m"
  "installed (pluginInfo im m) = Map_has im (m_id m)"
  "enabled (pluginInfo im m) = (case Map_get im (m_id m) of None \<Rightarrow> False | Some i \<Rightarrow> i_enabled i)"
  by (simp_all add: pluginInfo_def PluginManifest.defs PluginInfo.defs)

lemma filter_includes_subset: "filter_includes cfg ids = Some kept \<Longrightarrow> set kept \<subseteq> set ids"
  by (induction ids arbitrary: kept) (auto split: option.splits if_splits)

lemma filter_includes_array:
  "filter_includes (JArray xs) ids = Some (filter (\<lambda>x. JString x \<in> set xs) ids)"
  by (induction ids) auto

lemma activePluginIds_subset:
  "set (activePluginIds JSON_parse session slotName entityType entityId ps b)
     \<subseteq> set (map m_id (enabledPlugins slotName ps))"
  by (auto simp: activePluginIds_def Let_def dest!: filter_includes_subset
      split: option.splits if_splits)

lemma activePluginIds_Nil:
  "enabledPlugins slotName ps = [] \<Longrightarrow>
   activePluginIds JSON_parse session slotName entityType entityId ps b = []"
  using activePluginIds_subset [of JSON_parse session slotName entityType entityId ps b]
  by simp

lemma cached_ok:
  "cache_ok imp b \<Longrightarrow> cached b pid slot = Some c \<Longrightarrow> slotComponent imp slot pid = Some c"
  by (fastforce simp: cached_def cache_ok_def Map_get_def list_all_iff dest!: map_of_SomeD
      split: option.splits)

lemma list_all_Map_set: "list_all P m \<Longrightarrow> P (k, v) \<Longrightarrow> list_all P (Map_set k v m)"
  by (induction m) auto

lemma loadPluginComponent_fst:
  "cache_ok imp b \<Longrightarrow> fst (loadPluginComponent imp pid slot b) = slotComponent imp slot pid"
  by (auto simp: loadPluginComponent_def slotComponent_def Let_def dest: cached_ok
      split: option.splits)

lemma loadPluginComponent_ok:
  assumes "cache_ok imp b"
  shows "cache_ok imp (snd (loadPluginComponent imp pid slot b))"
proof (cases "cached b pid slot")
  case (Some c)
  with assms show ?thesis by (simp add: loadPluginComponent_def)
next
  case None
  show ?thesis
  proof (cases "slotComponent imp slot pid")
    case no: None
    with None assms show ?thesis
      by (auto simp: loadPluginComponent_def slotComponent_def cache_ok_def consoleEmit_def
          split: option.splits)
  next
    case (Some c)
    then obtain pm where pm: "importPlugin imp pid = Some (Some pm)"
      "map_of (pm_components pm) slot = Some c"
      by (auto simp: slotComponent_def split: option.splits)
    define cache1 where "cache1 = (if \<not> Map_has (clientCache b) pid
                                   then Map_set pid [] (clientCache b) else clientCache b)"
    define slots where "slots = (case Map_get cache1 pid of None \<Rightarrow> [] | Some m \<Rightarrow> m)"
    have outer: "list_all (\<lambda>entry.
        list_all (\<lambda>sc. slotComponent imp (fst sc) (fst entry) = Some (snd sc)) (snd entry)) cache1"
      using assms by (auto simp: cache1_def cache_ok_def intro: list_all_Map_set)
    have "list_all (\<lambda>sc. slotComponent imp (fst sc) pid = Some (snd sc)) slots"
    proof (cases "Map_get cache1 pid")
      case None
      then show ?thesis by (simp add: slots_def)
    next
      case (Some m)
      then have "(pid, m) \<in> set cache1"
        by (auto simp: Map_get_def dest: map_of_SomeD)
      with outer Some show ?thesis
        by (force simp: slots_def list_all_iff)
    qed
    then have inner: "list_all (\<lambda>sc. slotComponent imp (fst sc) pid = Some (snd sc))
        (Map_set slot c slots)"
      using Some by (intro list_all_Map_set) auto
    have "snd (loadPluginComponent imp pid slot b) =
        b\<lparr>clientCache := Map_set pid (Map_set slot c slots) cache1\<rparr>"
      using None pm by (simp add: loadPluginComponent_def Let_def cache1_def slots_def)
    with outer inner show ?thesis
      by (auto simp: cache_ok_def intro: list_all_Map_set)
  qed
qed


lemma loadComponents_ok:
  "cache_ok imp b \<Longrightarrow>
   fst (loadComponents imp slot ids b) = List.map_filter (slotComponent imp slot) ids \<and>
   cache_ok imp (snd (loadComponents imp slot ids b))"
proof (induction ids arbitrary: b)
  case Nil
  then show ?case by (simp add: List.map_filter_simps)
next
  case (Cons pid ids)
  from Cons.prems have 1: "fst (loadPluginComponent imp pid slot b) = slotComponent imp slot pid"
    and 2: "cache_ok imp (snd (loadPluginComponent imp pid slot b))"
    by (simp_all add: loadPluginComponent_fst loadPluginComponent_ok)
  from Cons.IH [OF 2] 1 show ?case
    by (auto simp: List.map_filter_simps split: prod.splits option.splits)
qed



section \<open>Who gets components\<close>

text \<open>
  C4. When the request for the plugin list carries no session, or a session whose user id
  is empty, the resolution sets the empty component list, for every registry, database,
  slot, entity and browser state (whatever the browser itself holds as its session), and
  leaves the browser as it was.
\<close>

theorem anonymous_viewer_gets_nothing:
  assumes "\<not> hasUser serverSession"
  shows "loadSlotComponents imp JSON_parse clientSession slotName entityType entityId
           (api_plugins_GET reg serverSession d) b = (Inr [], b)"
proof -
  have "enabledPlugins slotName (map (pluginInfo []) (getAvailablePlugins reg)) = []"
    by (auto simp: enabledPlugins_def Map_has_def filter_empty_conv)
  then show ?thesis
    using assms
    by (simp add: loadSlotComponents_def api_plugins_GET_def pluginList_def
        installationMap_anonymous activePluginIds_Nil)
qed

theorem anonymous_viewer_gets_nothing_witness:
  "\<not> hasUser None \<and>
   loadSlotComponents pluginBundle Map.empty (Some ''u1'') ''CompanyProfile.Header''
     (Some company) (Some ''acme'')
     (api_plugins_GET (initializeAvailablePlugins (emptyStore :: component store)) None
        (seedDb ''u1''))
     emptyBrowser = (Inr [], emptyBrowser)"
  using anonymous_viewer_gets_nothing
    [of None pluginBundle Map.empty "Some ''u1''" "''CompanyProfile.Header''" "Some company"
        "Some ''acme''" "initializeAvailablePlugins (emptyStore :: component store)"
        "seedDb ''u1''" emptyBrowser]
  by simp

section \<open>Resolution\<close>

lemma loadSlotComponents_fst:
  "cache_ok imp b \<Longrightarrow>
   fst (loadSlotComponents imp JSON_parse session slotName entityType entityId (Status200 body) b) =
     Inr (List.map_filter (slotComponent imp slotName)
            (activePluginIds JSON_parse session slotName entityType entityId (plugins body) b))"
  using loadComponents_ok [of imp b slotName]
  by (auto simp: loadSlotComponents_def split: prod.splits dest: arg_cong [where f = fst])

text \<open>
  The cache invariant holds when the page is loaded and is kept by every resolution and
  by every change of an override.
\<close>

lemma emptyBrowser_cache_ok: "cache_ok imp emptyBrowser"
  by (simp add: cache_ok_def emptyBrowser_def)

lemma loadSlotComponents_cache_ok:
  assumes "cache_ok imp b"
  shows "cache_ok imp (snd (loadSlotComponents imp JSON_parse session slotName entityType entityId
                              resp b))"
proof (cases resp)
  case (Status200 body)
  with loadComponents_ok [OF assms] show ?thesis
    by (simp add: loadSlotComponents_def case_prod_beta)
qed (use assms in \<open>simp_all add: loadSlotComponents_def consoleEmit_def cache_ok_def\<close>)

lemma saveEntityConfig_cache_ok:
  "cache_ok imp b \<Longrightarrow> cache_ok imp (saveEntityConfig JSON_stringify entityType entityId newConfig b)"
  by (simp add: saveEntityConfig_def cache_ok_def)

lemma disabled_not_enabledPlugins:
  assumes "\<forall>i\<in>set (pluginInstallation d). i_userId i = viewer \<and> i_pluginId i = p \<longrightarrow> \<not> i_enabled i"
  shows "p \<notin> set (map m_id (enabledPlugins slotName
            (map (pluginInfo (installationMap (Some viewer) d)) ms)))"
proof
  assume "p \<in> set (map m_id (enabledPlugins slotName
            (map (pluginInfo (installationMap (Some viewer) d)) ms)))"
  then obtain m where m: "m_id m = p"
    "enabled (pluginInfo (installationMap (Some viewer) d) m)"
    by (auto simp: enabledPlugins_def)
  then obtain i where i: "Map_get (installationMap (Some viewer) d) p = Some i" "i_enabled i"
    by (auto split: option.splits)
  from Map_get_installationMap [OF i(1)] i(2) assms show False
    by auto
qed

subsection \<open>The example\<close>

lemma acme_registry:
  "getAvailablePlugins acmeRegistry =
     [companyMetricsManifest, investorInsightsManifest, timelineManifest]"
  by (simp add: acmeRegistry_def loadPlugins_def registerAll_def registerAvailablePlugin_def
      emptyStore_def emit_def Map_has_def getAvailablePlugins_def Map_values_def
      companyMetricsManifest_def investorInsightsManifest_def timelineManifest_def)

lemma acme_rows:
  "pluginInstallation acmeDb =
     [\<lparr>i_id = ''1'', i_userId = ''u1'', i_pluginId = ''company-metrics'', i_enabled = True,
       i_settings = JObject []\<rparr>,
      \<lparr>i_id = ''2'', i_userId = ''u1'', i_pluginId = ''investor-insights'', i_enabled = True,
       i_settings = JObject []\<rparr>,
      \<lparr>i_id = ''3'', i_userId = ''u1'', i_pluginId = ''timeline'', i_enabled = True,
       i_settings = JObject []\<rparr>]"
  by (simp add: acmeDb_def api_plugins_POST_def truthy_def getPluginManifest_def Map_get_def
      acmeRegistry_def loadPlugins_def registerAll_def registerAvailablePlugin_def
      emptyStore_def emit_def Map_has_def upsertInstallation_def seedDb_def Let_def
      companyMetricsManifest_def investorInsightsManifest_def timelineManifest_def)

lemma acme_candidates:
  "map m_id (enabledPlugins ''CompanyProfile.Header'' (pluginList acmeRegistry (Some ''u1'') acmeDb))
     = [''company-metrics'', ''timeline'']"
  by (simp add: enabledPlugins_def pluginList_def acme_registry installationMap_def
      installationsOf_def truthy_def acme_rows Map_new_def Map_has_def Map_get_def
      companyMetricsManifest_def investorInsightsManifest_def timelineManifest_def)

lemma acme_cache_ok: "cache_ok pluginBundle acmeBrowser"
  by (simp add: cache_ok_def acmeBrowser_def emptyBrowser_def)

lemma acme_components:
  "slotComponent pluginBundle ''CompanyProfile.Header'' ''company-metrics'' = Some QuickStatsCard"
  "slotComponent pluginBundle ''CompanyProfile.Header'' ''timeline'' = None"
  by (simp_all add: slotComponent_def importPlugin_def pluginBundle_def companyMetricsPlugin_def)

lemma disabled_rows:
  "pluginInstallation disabledDb =
     [\<lparr>i_id = ''1'', i_userId = ''u1'', i_pluginId = ''company-metrics'', i_enabled = False,
       i_settings = JObject []\<rparr>,
      \<lparr>i_id = ''2'', i_userId = ''u1'', i_pluginId = ''investor-insights'', i_enabled = True,
       i_settings = JObject []\<rparr>,
      \<lparr>i_id = ''3'', i_userId = ''u1'', i_pluginId = ''timeline'', i_enabled = True,
       i_settings = JObject []\<rparr>]"
  by (simp add: disabledDb_def api_plugins_PATCH_def truthy_def acme_rows Let_def)

lemma disabled_candidates:
  "map m_id (enabledPlugins ''CompanyProfile.Header''
               (pluginList acmeRegistry (Some ''u1'') disabledDb)) = [''timeline'']"
  by (simp add: enabledPlugins_def pluginList_def acme_registry installationMap_def
      installationsOf_def truthy_def disabled_rows Map_new_def Map_has_def Map_get_def
      companyMetricsManifest_def investorInsightsManifest_def timelineManifest_def)


subsection \<open>Disabled plugins\<close>

text \<open>
  C5. If every installation row of the viewer for a plugin has \<^verbatim>\<open>enabled = false\<close>, then for
  every slot, entity, browser state and browser-side session the plugin is not among the
  ids that the resolution loads, and the components it sets are the slot components of
  exactly those ids, in their order.
\<close>

theorem disabled_plugin_never_resolved:
  assumes "\<forall>i\<in>set (pluginInstallation d). i_userId i = viewer \<and> i_pluginId i = p \<longrightarrow> \<not> i_enabled i"
    and "cache_ok imp b"
  shows "p \<notin> set (activePluginIds JSON_parse clientSession slotName entityType entityId
                    (pluginList reg (Some viewer) d) b) \<and>
         fst (loadSlotComponents imp JSON_parse clientSession slotName entityType entityId
                (api_plugins_GET reg (Some viewer) d) b) =
           Inr (List.map_filter (slotComponent imp slotName)
                  (activePluginIds JSON_parse clientSession slotName entityType entityId
                     (pluginList reg (Some viewer) d) b))"
proof -
  from disabled_not_enabledPlugins [OF assms(1), of slotName "getAvailablePlugins reg"]
    activePluginIds_subset [of JSON_parse clientSession slotName entityType entityId
      "pluginList reg (Some viewer) d" b]
  have "p \<notin> set (activePluginIds JSON_parse clientSession slotName entityType entityId
                    (pluginList reg (Some viewer) d) b)"
    by (auto simp: pluginList_def)
  with loadSlotComponents_fst [OF assms(2)] show ?thesis
    by (simp add: api_plugins_GET_def)
qed

theorem disabled_plugin_never_resolved_witness:
  "filter (\<lambda>i. i_userId i = ''u1'' \<and> i_pluginId i = ''company-metrics'')
     (pluginInstallation disabledDb) =
     [\<lparr>i_id = ''1'', i_userId = ''u1'', i_pluginId = ''company-metrics'', i_enabled = False,
       i_settings = JObject []\<rparr>] \<and>
   ''company-metrics'' \<notin> set (activePluginIds acmeParse (Some ''u1'') ''CompanyProfile.Header''
      (Some company) (Some ''acme'') (pluginList acmeRegistry (Some ''u1'') disabledDb)
      (emptyBrowser :: component browser)) \<and>
   fst (loadSlotComponents pluginBundle acmeParse (Some ''u1'') ''CompanyProfile.Header''
          (Some company) (Some ''acme'') (api_plugins_GET acmeRegistry (Some ''u1'') disabledDb)
          (emptyBrowser :: component browser)) = Inr []"
proof -
  have h: "\<forall>i\<in>set (pluginInstallation disabledDb).
      i_userId i = ''u1'' \<and> i_pluginId i = ''company-metrics'' \<longrightarrow> \<not> i_enabled i"
    by (simp add: disabled_rows)
  have ids: "activePluginIds acmeParse (Some ''u1'') ''CompanyProfile.Header''
      (Some company) (Some ''acme'') (pluginList acmeRegistry (Some ''u1'') disabledDb)
      (emptyBrowser :: component browser) = [''timeline'']"
    by (simp add: activePluginIds_def disabled_candidates emptyBrowser_def truthy_def)
  from disabled_plugin_never_resolved
         [where imp = pluginBundle and JSON_parse = acmeParse and clientSession = "Some ''u1''"
            and slotName = "''CompanyProfile.Header''" and entityType = "Some company"
            and entityId = "Some ''acme''" and reg = acmeRegistry
            and b = "emptyBrowser :: component browser", OF h emptyBrowser_cache_ok]
  show ?thesis
    by (simp add: ids acme_components disabled_rows)
qed

subsection \<open>Entity overrides\<close>

lemma anonymous_candidates:
  "\<not> hasUser session \<Longrightarrow> enabledPlugins slotName (pluginList reg session d) = []"
  by (auto simp: enabledPlugins_def pluginList_def installationMap_anonymous Map_has_def
      filter_empty_conv)

lemma served_candidates:
  "map m_id (enabledPlugins ''CompanyProfile.Header''
               (pluginList servedRegistry (Some ''u1'') (seedDb ''u1''))) = [''company-metrics'']"
  by (simp add: enabledPlugins_def pluginList_def servedRegistry_def initializeAvailablePlugins_def
      registerAvailablePlugin_def emptyStore_def emit_def getAvailablePlugins_def Map_values_def
      installationMap_def installationsOf_def truthy_def seedDb_def Map_new_def Map_has_def
      Map_get_def companyMetricsManifest_def investorInsightsManifest_def)

text \<open>
  C1 as stated does not hold. \<^verbatim>\<open>loadSlotComponents\<close> reads the override only when the
  session of the browser's \<^verbatim>\<open>useSession\<close> hook carries a user id, while the candidates come
  from \<^verbatim>\<open>GET /api/plugins\<close>, which the server answers from the session of the request. The
  component does not wait for the hook: with the hook's session still absent and the
  request authenticated as \<^verbatim>\<open>u1\<close>, the stored override \<^verbatim>\<open>[]\<close> of the company \<^verbatim>\<open>acme\<close> lists no
  plugin, and the slot \<^verbatim>\<open>CompanyProfile.Header\<close> still gets the component of
  \<^verbatim>\<open>company-metrics\<close>. And with the override read, a plugin that is a candidate and that the
  override lists still gives no component when the loader of \<^verbatim>\<open>DynamicSlot.tsx\<close> has no
  \<^verbatim>\<open>import\<close> for it: with the three plugins of \<^verbatim>\<open>loader.ts\<close> registered and the override
  \<^verbatim>\<open>["timeline"]\<close>, the module of \<^verbatim>\<open>timeline\<close> has a component for the slot and the slot gets
  none.
\<close>

theorem override_is_intersection_counterexample:
  "localStorage clearedBrowser (storageKey company ''acme'') = Some ''[]'' \<and>
   overrideParse ''[]'' = Some (JArray []) \<and>
   map m_id (enabledPlugins ''CompanyProfile.Header''
               (pluginList servedRegistry (Some ''u1'') (seedDb ''u1''))) = [''company-metrics''] \<and>
   fst (loadSlotComponents pluginBundle overrideParse None ''CompanyProfile.Header''
          (Some company) (Some ''acme'')
          (api_plugins_GET servedRegistry (Some ''u1'') (seedDb ''u1'')) clearedBrowser)
     = Inr [QuickStatsCard] \<and>
   slotComponent pluginBundle ''CompanyProfile.Header'' ''company-metrics'' = Some QuickStatsCard \<and>
   localStorage timelineBrowser (storageKey company ''acme'') = Some ''[\"timeline\"]'' \<and>
   overrideParse ''[\"timeline\"]'' = Some (JArray [JString ''timeline'']) \<and>
   map m_id (enabledPlugins ''CompanyProfile.Header''
               (pluginList acmeRegistry (Some ''u1'') acmeDb)) = [''company-metrics'', ''timeline''] \<and>
   map_of (pm_components timelinePlugin) ''CompanyProfile.Header'' = Some RecentActivity \<and>
   fst (loadSlotComponents pluginBundle overrideParse (Some ''u1'') ''CompanyProfile.Header''
          (Some company) (Some ''acme'')
          (api_plugins_GET acmeRegistry (Some ''u1'') acmeDb) timelineBrowser)
     = Inr []"
proof -
  have ids1: "activePluginIds overrideParse None ''CompanyProfile.Header''
      (Some company) (Some ''acme'') (pluginList servedRegistry (Some ''u1'') (seedDb ''u1''))
      clearedBrowser = [''company-metrics'']"
    by (simp add: activePluginIds_def served_candidates)
  have ids2: "activePluginIds overrideParse (Some ''u1'') ''CompanyProfile.Header''
      (Some company) (Some ''acme'') (pluginList acmeRegistry (Some ''u1'') acmeDb)
      timelineBrowser = [''timeline'']"
    by (simp add: activePluginIds_def acme_candidates timelineBrowser_def emptyBrowser_def
        storageKey_def overrideParse_def truthy_def)
  have ok: "cache_ok pluginBundle clearedBrowser" "cache_ok pluginBundle timelineBrowser"
    by (simp_all add: cache_ok_def clearedBrowser_def timelineBrowser_def emptyBrowser_def)
  have r1: "fst (loadSlotComponents pluginBundle overrideParse None ''CompanyProfile.Header''
          (Some company) (Some ''acme'')
          (api_plugins_GET servedRegistry (Some ''u1'') (seedDb ''u1'')) clearedBrowser)
     = Inr [QuickStatsCard]"
    by (simp add: api_plugins_GET_def loadSlotComponents_fst [OF ok(1)] ids1 acme_components
        List.map_filter_simps)
  have r2: "fst (loadSlotComponents pluginBundle overrideParse (Some ''u1'')
          ''CompanyProfile.Header'' (Some company) (Some ''acme'')
          (api_plugins_GET acmeRegistry (Some ''u1'') acmeDb) timelineBrowser)
     = Inr []"
    by (simp add: api_plugins_GET_def loadSlotComponents_fst [OF ok(2)] ids2 acme_components
        List.map_filter_simps)
  have rest: "localStorage clearedBrowser (storageKey company ''acme'') = Some ''[]''"
    "overrideParse ''[]'' = Some (JArray [])"
    "localStorage timelineBrowser (storageKey company ''acme'') = Some ''[\"timeline\"]''"
    "overrideParse ''[\"timeline\"]'' = Some (JArray [JString ''timeline''])"
    "map_of (pm_components timelinePlugin) ''CompanyProfile.Header'' = Some RecentActivity"
    by (simp_all add: clearedBrowser_def timelineBrowser_def emptyBrowser_def storageKey_def
        overrideParse_def timelinePlugin_def)
  from r1 r2 rest served_candidates acme_candidates acme_components show ?thesis
    by blast
qed

text \<open>
  C1, amended. For every viewer, slot and entity that is given (its id is not empty), when
  \<^verbatim>\<open>localStorage\<close> holds an override text for the entity, the text parses to an array, and
  the session of the browser carries a user id whenever the session of the request does,
  the ids that the resolution loads are the viewer's installed and enabled plugins that
  declare the slot, in their order, restricted to those that the array lists; the
  components it sets are the slot components of those of these ids that the loader of
  \<^verbatim>\<open>DynamicSlot.tsx\<close> loads; and a plugin that the array does not list is not among the ids.
  Nothing is said of a resolution that runs while the browser has no session user and the
  request has one.
\<close>

theorem override_is_intersection:
  assumes "hasUser clientSession \<or> \<not> hasUser serverSession"
    and "truthy entityId"
    and "localStorage b (storageKey entityType entityId) = Some saved"
    and "truthy saved" and "JSON_parse saved = Some (JArray override)"
    and "cache_ok imp b"
  shows "activePluginIds JSON_parse clientSession slotName (Some entityType) (Some entityId)
           (pluginList reg serverSession d) b =
           filter (\<lambda>pluginId. JString pluginId \<in> set override)
             (map m_id (enabledPlugins slotName (pluginList reg serverSession d))) \<and>
         fst (loadSlotComponents imp JSON_parse clientSession slotName (Some entityType)
                (Some entityId) (api_plugins_GET reg serverSession d) b) =
           Inr (List.map_filter (slotComponent imp slotName)
                  (filter (\<lambda>pluginId. JString pluginId \<in> set override)
                     (map m_id (enabledPlugins slotName (pluginList reg serverSession d))))) \<and>
         (JString p \<notin> set override \<longrightarrow>
            p \<notin> set (activePluginIds JSON_parse clientSession slotName (Some entityType)
                        (Some entityId) (pluginList reg serverSession d) b))"
proof -
  have ids: "activePluginIds JSON_parse clientSession slotName (Some entityType) (Some entityId)
           (pluginList reg serverSession d) b =
           filter (\<lambda>pluginId. JString pluginId \<in> set override)
             (map m_id (enabledPlugins slotName (pluginList reg serverSession d)))"
  proof (cases "hasUser clientSession")
    case True
    with assms(2-5) show ?thesis
      by (auto simp: activePluginIds_def filter_includes_array Let_def)
  next
    case False
    with assms(1) have "\<not> hasUser serverSession" by simp
    then show ?thesis
      by (simp add: anonymous_candidates activePluginIds_Nil)
  qed
  with loadSlotComponents_fst [OF assms(6)] show ?thesis
    by (simp add: api_plugins_GET_def)
qed

theorem override_is_intersection_witness:
  "hasUser (Some ''u1'') \<and> truthy ''acme'' \<and>
   localStorage acmeBrowser (storageKey company ''acme'') = Some ''[\"company-metrics\"]'' \<and>
   acmeParse ''[\"company-metrics\"]'' = Some (JArray [JString ''company-metrics'']) \<and>
   map m_id (enabledPlugins ''CompanyProfile.Header'' (pluginList acmeRegistry (Some ''u1'') acmeDb))
     = [''company-metrics'', ''timeline''] \<and>
   activePluginIds acmeParse (Some ''u1'') ''CompanyProfile.Header'' (Some company) (Some ''acme'')
     (pluginList acmeRegistry (Some ''u1'') acmeDb) acmeBrowser = [''company-metrics''] \<and>
   fst (loadSlotComponents pluginBundle acmeParse (Some ''u1'') ''CompanyProfile.Header''
          (Some company) (Some ''acme'') (api_plugins_GET acmeRegistry (Some ''u1'') acmeDb)
          acmeBrowser) = Inr [QuickStatsCard] \<and>
   ''timeline'' \<notin> set (activePluginIds acmeParse (Some ''u1'') ''CompanyProfile.Header''
                          (Some company) (Some ''acme'')
                          (pluginList acmeRegistry (Some ''u1'') acmeDb) acmeBrowser)"
proof -
  have h1: "hasUser (Some ''u1'')"
    by (simp add: truthy_def)
  then have h0: "hasUser (Some ''u1'') \<or> \<not> hasUser (Some ''u1'')" ..
  have h2: "truthy ''acme''" and h4: "truthy ''[\"company-metrics\"]''"
    by (simp_all add: truthy_def)
  have h3: "localStorage acmeBrowser (storageKey company ''acme'') = Some ''[\"company-metrics\"]''"
    by (simp add: acmeBrowser_def storageKey_def)
  have h5: "acmeParse ''[\"company-metrics\"]'' = Some (JArray [JString ''company-metrics''])"
    by (simp add: acmeParse_def)
  from override_is_intersection
         [where JSON_parse = acmeParse and saved = "''[\"company-metrics\"]''"
            and slotName = "''CompanyProfile.Header''" and reg = acmeRegistry and d = acmeDb
            and p = "''timeline''" and clientSession = "Some ''u1''"
            and serverSession = "Some ''u1''",
          OF h0 h2 h3 h4 h5 acme_cache_ok]
  show ?thesis
    using h1 h2 h3 h5 by (simp add: acme_candidates acme_components)
qed

lemma loadPluginComponent_storage_update:
  "loadPluginComponent imp pid slot (b\<lparr>localStorage := ls\<rparr>) =
     (fst (loadPluginComponent imp pid slot b),
      (snd (loadPluginComponent imp pid slot b))\<lparr>localStorage := ls\<rparr>)"
  by (auto simp: loadPluginComponent_def cached_def consoleEmit_def Let_def split: option.splits)

lemma loadComponents_storage_update:
  "loadComponents imp slot ids (b\<lparr>localStorage := ls\<rparr>) =
     (fst (loadComponents imp slot ids b), (snd (loadComponents imp slot ids b))\<lparr>localStorage := ls\<rparr>)"
proof (induction ids arbitrary: b)
  case Nil
  then show ?case by simp
next
  case (Cons pid ids)
  show ?case
    by (simp add: loadPluginComponent_storage_update Cons case_prod_beta split: option.splits)
qed

text \<open>
  C10. When the override text stored for the entity does not parse, the ids that the
  resolution loads are all installed and enabled plugins that declare the slot; it sets
  a component list, not an error; and that list, the console and the component cache are
  what they are when nothing is stored for the entity.
\<close>

theorem malformed_override_is_no_override:
  fixes imp JSON_parse session slotName body
  assumes "localStorage b (storageKey entityType entityId) = Some saved"
    and "JSON_parse saved = None"
  defines "b0 \<equiv> b\<lparr>localStorage := (localStorage b)(storageKey entityType entityId := None)\<rparr>"
  defines "run \<equiv> loadSlotComponents imp JSON_parse session slotName (Some entityType) (Some entityId)
                    (Status200 body)"
  shows "activePluginIds JSON_parse session slotName (Some entityType) (Some entityId)
           (plugins body) b = map m_id (enabledPlugins slotName (plugins body)) \<and>
         fst (run b) = fst (run b0) \<and>
         fst (run b) = Inr (fst (loadComponents imp slotName
                                  (map m_id (enabledPlugins slotName (plugins body))) b)) \<and>
         console (snd (run b)) = console (snd (run b0)) \<and>
         clientCache (snd (run b)) = clientCache (snd (run b0))"
proof -
  have ids: "activePluginIds JSON_parse session slotName (Some entityType) (Some entityId)
           (plugins body) b = map m_id (enabledPlugins slotName (plugins body))"
    using assms(1,2) by (auto simp: activePluginIds_def Let_def)
  have ids0: "activePluginIds JSON_parse session slotName (Some entityType) (Some entityId)
           (plugins body) b0 = map m_id (enabledPlugins slotName (plugins body))"
    by (auto simp: activePluginIds_def b0_def Let_def)
  show ?thesis
    unfolding run_def
    by (simp add: loadSlotComponents_def ids ids0 [unfolded b0_def] b0_def
        loadComponents_storage_update case_prod_beta)
qed

theorem malformed_override_is_no_override_witness:
  "localStorage (emptyBrowser\<lparr>localStorage := [''entity-plugins:company:acme'' \<mapsto> ''{oops'']\<rparr>
                   :: component browser)
     (storageKey company ''acme'') = Some ''{oops'' \<and>
   acmeParse ''{oops'' = None \<and>
   activePluginIds acmeParse (Some ''u1'') ''CompanyProfile.Header'' (Some company) (Some ''acme'')
     (pluginList acmeRegistry (Some ''u1'') acmeDb)
     (emptyBrowser\<lparr>localStorage := [''entity-plugins:company:acme'' \<mapsto> ''{oops'']\<rparr>
        :: component browser) = [''company-metrics'', ''timeline''] \<and>
   fst (loadSlotComponents pluginBundle acmeParse (Some ''u1'') ''CompanyProfile.Header''
          (Some company) (Some ''acme'') (api_plugins_GET acmeRegistry (Some ''u1'') acmeDb)
          (emptyBrowser\<lparr>localStorage := [''entity-plugins:company:acme'' \<mapsto> ''{oops'']\<rparr>))
     = fst (loadSlotComponents pluginBundle acmeParse (Some ''u1'') ''CompanyProfile.Header''
          (Some company) (Some ''acme'') (api_plugins_GET acmeRegistry (Some ''u1'') acmeDb)
          emptyBrowser)"
proof -
  let ?b = "emptyBrowser\<lparr>localStorage := [''entity-plugins:company:acme'' \<mapsto> ''{oops'']\<rparr>
              :: component browser"
  have h1: "localStorage ?b (storageKey company ''acme'') = Some ''{oops''"
    by (simp add: storageKey_def)
  have h2: "acmeParse ''{oops'' = None"
    by (simp add: acmeParse_def)
  have e: "?b\<lparr>localStorage := (localStorage ?b)(storageKey company ''acme'' := None)\<rparr> = emptyBrowser"
    by (simp add: emptyBrowser_def storageKey_def)
  note t = malformed_override_is_no_override
         [where JSON_parse = acmeParse and b = ?b and saved = "''{oops''"
            and imp = pluginBundle and session = "Some ''u1''"
            and slotName = "''CompanyProfile.Header''"
            and body = "\<lparr>plugins = pluginList acmeRegistry (Some ''u1'') acmeDb,
                         isAuthenticated = True\<rparr>", OF h1 h2]
  show ?thesis
    using h1 h2 t [unfolded e] by (simp add: acme_candidates api_plugins_GET_def)
qed

subsection \<open>Order\<close>











section \<open>Installing and uninstalling\<close>

subsection \<open>Installing a plugin that the registry does not hold\<close>

text \<open>
  C8 as stated does not hold for the empty plugin id: the registry does not hold it, and
  the handler answers 400, not 404, because \<^verbatim>\<open>!pluginId\<close> is checked before the registry
  is asked.
\<close>

theorem install_unknown_plugin_counterexample:
  "hasUser (Some ''u1'') \<and> getPluginManifest acmeRegistry '''' = None \<and>
   api_plugins_POST acmeRegistry ''4'' (JObject []) (Some ''u1'') (Some '''') acmeDb =
     (Status400 ''Plugin ID is required'', acmeDb) \<and>
   fst (api_plugins_POST acmeRegistry ''4'' (JObject []) (Some ''u1'') (Some '''') acmeDb) \<noteq>
     Status404 ''Plugin not found''"
  by (simp add: api_plugins_POST_def truthy_def getPluginManifest_def Map_get_def
      acmeRegistry_def loadPlugins_def registerAll_def registerAvailablePlugin_def
      emptyStore_def emit_def Map_has_def
      companyMetricsManifest_def investorInsightsManifest_def timelineManifest_def)

text \<open>
  C8, amended. For every signed-in viewer and every plugin id that the registry does not
  hold, \<^verbatim>\<open>POST /api/plugins\<close> leaves the database as it is, so no installation row is
  created; the answer is 404 \<^verbatim>\<open>Plugin not found\<close> when the id is not empty and 400
  \<^verbatim>\<open>Plugin ID is required\<close> when it is.
\<close>

theorem install_unknown_plugin:
  assumes "hasUser session" and "getPluginManifest reg pluginId = None"
  shows "api_plugins_POST reg newId defaultSettings session (Some pluginId) d =
           ((if truthy pluginId then Status404 ''Plugin not found''
             else Status400 ''Plugin ID is required''), d)"
  using assms by (cases session) (auto simp: api_plugins_POST_def)

theorem install_unknown_plugin_witness:
  "hasUser (Some ''u1'') \<and> getPluginManifest acmeRegistry ''nonexistent-plugin'' = None \<and>
   api_plugins_POST acmeRegistry ''4'' (JObject []) (Some ''u1'') (Some ''nonexistent-plugin'')
     acmeDb = (Status404 ''Plugin not found'', acmeDb)"
proof -
  have h1: "hasUser (Some ''u1'')" by (simp add: truthy_def)
  have h2: "getPluginManifest acmeRegistry ''nonexistent-plugin'' = None"
    by (simp add: getPluginManifest_def Map_get_def
      acmeRegistry_def loadPlugins_def registerAll_def registerAvailablePlugin_def
      emptyStore_def emit_def Map_has_def
      companyMetricsManifest_def investorInsightsManifest_def timelineManifest_def)
  from install_unknown_plugin [OF h1 h2, of "''4''" "JObject []" acmeDb] h1 h2
  show ?thesis by (simp add: truthy_def)
qed

subsection \<open>Installing again\<close>

lemma find_Some_mem: "find P xs = Some x \<Longrightarrow> x \<in> set xs \<and> P x"
  by (induction xs) (auto split: if_splits)

lemma wf_db_POST:
  "wf_db d \<Longrightarrow> wf_db (snd (api_plugins_POST reg newId defaultSettings session body_pluginId d))"
  by (auto simp: wf_db_def api_plugins_POST_def upsertInstallation_def list_all_iff Let_def
      split: option.splits)

lemma wf_db_PATCH:
  "wf_db d \<Longrightarrow> wf_db (snd (api_plugins_PATCH session body_pluginId body_enabled body_settings d))"
  by (auto simp: wf_db_def api_plugins_PATCH_def list_all_iff Let_def split: option.splits)

lemma wf_db_DELETE:
  "wf_db d \<Longrightarrow> wf_db (snd (api_plugins_DELETE fault session param_pluginId d))"
  by (auto simp: wf_db_def api_plugins_DELETE_def list_all_iff Let_def split: option.splits)

lemma wf_db_seed: "truthy uid \<Longrightarrow> wf_db (seedDb uid)"
  by (simp add: wf_db_def seedDb_def truthy_def)

text \<open>
  C9. For every viewer and registered plugin id for which the viewer has an installation
  row, \<^verbatim>\<open>POST /api/plugins\<close> answers 200 with that row enabled, sets \<^verbatim>\<open>enabled\<close> on the rows
  of that viewer and plugin and changes nothing else: no row is added or removed, and the
  ids, settings, users and plugins of all rows are as before. The database is one that
  the handlers can have produced.
\<close>

theorem reinstall_keeps_settings:
  fixes reg newId defaultSettings
  assumes "wf_db d"
    and "getPluginManifest reg pluginId = Some manifest"
    and "i \<in> set (pluginInstallation d)" and "i_userId i = viewer" and "i_pluginId i = pluginId"
  defines "r \<equiv> api_plugins_POST reg newId defaultSettings (Some viewer) (Some pluginId) d"
  shows "(\<exists>existing\<in>set (pluginInstallation d).
            i_userId existing = viewer \<and> i_pluginId existing = pluginId \<and>
            fst r = Status200 (existing\<lparr>i_enabled := True\<rparr>, manifest)) \<and>
         pluginInstallation (snd r) =
           map (\<lambda>row. if i_userId row = viewer \<and> i_pluginId row = pluginId
                       then row\<lparr>i_enabled := True\<rparr> else row) (pluginInstallation d) \<and>
         map i_id (pluginInstallation (snd r)) = map i_id (pluginInstallation d) \<and>
         map i_settings (pluginInstallation (snd r)) = map i_settings (pluginInstallation d) \<and>
         map i_userId (pluginInstallation (snd r)) = map i_userId (pluginInstallation d) \<and>
         map i_pluginId (pluginInstallation (snd r)) = map i_pluginId (pluginInstallation d) \<and>
         entityPluginConfig (snd r) = entityPluginConfig d \<and>
         i\<lparr>i_enabled := True\<rparr> \<in> set (pluginInstallation (snd r))"
proof -
  from assms(1,3-5) have ids: "truthy viewer" "truthy pluginId"
    by (auto simp: wf_db_def list_all_iff)
  from assms(3-5) obtain existing where ex:
    "find (\<lambda>r. i_userId r = viewer \<and> i_pluginId r = pluginId) (pluginInstallation d) = Some existing"
    by (cases "find (\<lambda>r. i_userId r = viewer \<and> i_pluginId r = pluginId) (pluginInstallation d)")
      (auto simp: find_None_iff)
  let ?rows = "map (\<lambda>row. if i_userId row = viewer \<and> i_pluginId row = pluginId
                       then row\<lparr>i_enabled := True\<rparr> else row) (pluginInstallation d)"
  have post: "r = (Status200 (existing\<lparr>i_enabled := True\<rparr>, manifest),
                   d\<lparr>pluginInstallation := ?rows\<rparr>)"
    unfolding r_def using ids assms(2) ex
    by (simp add: api_plugins_POST_def upsertInstallation_def)
  have frame: "map i_id ?rows = map i_id (pluginInstallation d)"
    "map i_settings ?rows = map i_settings (pluginInstallation d)"
    "map i_userId ?rows = map i_userId (pluginInstallation d)"
    "map i_pluginId ?rows = map i_pluginId (pluginInstallation d)"
    by (simp_all add: comp_def if_distrib cong: if_cong)
  have mem: "i\<lparr>i_enabled := True\<rparr> \<in> set ?rows"
    using assms(3-5) by (auto simp: image_iff intro!: bexI [of _ i])
  from find_Some_mem [OF ex] have "existing \<in> set (pluginInstallation d)"
    "i_userId existing = viewer" "i_pluginId existing = pluginId"
    by simp_all
  with post frame mem show ?thesis
    by (auto simp del: map_map)
qed

lemma configured_rows:
  "pluginInstallation configuredDb =
     [\<lparr>i_id = ''1'', i_userId = ''u1'', i_pluginId = ''company-metrics'', i_enabled = False,
       i_settings = JObject [(''theme'', JString ''dark'')]\<rparr>,
      \<lparr>i_id = ''2'', i_userId = ''u1'', i_pluginId = ''investor-insights'', i_enabled = True,
       i_settings = JObject []\<rparr>,
      \<lparr>i_id = ''3'', i_userId = ''u1'', i_pluginId = ''timeline'', i_enabled = True,
       i_settings = JObject []\<rparr>]"
  by (simp add: configuredDb_def api_plugins_PATCH_def truthy_def acme_rows Let_def)

lemma acme_manifest:
  "getPluginManifest acmeRegistry ''company-metrics'' = Some companyMetricsManifest"
  by (simp add: getPluginManifest_def Map_get_def
      acmeRegistry_def loadPlugins_def registerAll_def registerAvailablePlugin_def
      emptyStore_def emit_def Map_has_def
      companyMetricsManifest_def investorInsightsManifest_def timelineManifest_def)

theorem reinstall_keeps_settings_witness:
  "wf_db configuredDb \<and>
   getPluginManifest acmeRegistry ''company-metrics'' = Some companyMetricsManifest \<and>
   \<lparr>i_id = ''1'', i_userId = ''u1'', i_pluginId = ''company-metrics'', i_enabled = False,
     i_settings = JObject [(''theme'', JString ''dark'')]\<rparr> \<in> set (pluginInstallation configuredDb) \<and>
   pluginInstallation
     (snd (api_plugins_POST acmeRegistry ''4'' (JObject []) (Some ''u1'') (Some ''company-metrics'')
             configuredDb)) =
     [\<lparr>i_id = ''1'', i_userId = ''u1'', i_pluginId = ''company-metrics'', i_enabled = True,
       i_settings = JObject [(''theme'', JString ''dark'')]\<rparr>,
      \<lparr>i_id = ''2'', i_userId = ''u1'', i_pluginId = ''investor-insights'', i_enabled = True,
       i_settings = JObject []\<rparr>,
      \<lparr>i_id = ''3'', i_userId = ''u1'', i_pluginId = ''timeline'', i_enabled = True,
       i_settings = JObject []\<rparr>]"
proof -
  let ?i = "\<lparr>i_id = ''1'', i_userId = ''u1'', i_pluginId = ''company-metrics'', i_enabled = False,
     i_settings = JObject [(''theme'', JString ''dark'')]\<rparr>"
  have h1: "wf_db configuredDb"
    by (simp add: wf_db_def configured_rows truthy_def)
  have h4: "?i \<in> set (pluginInstallation configuredDb)"
    by (simp add: configured_rows)
  have h5: "i_userId ?i = ''u1''" and h6: "i_pluginId ?i = ''company-metrics''"
    by simp_all
  from reinstall_keeps_settings
         [where reg = acmeRegistry and newId = "''4''" and defaultSettings = "JObject []",
          OF h1 acme_manifest h4 h5 h6]
  have "pluginInstallation
     (snd (api_plugins_POST acmeRegistry ''4'' (JObject []) (Some ''u1'') (Some ''company-metrics'')
             configuredDb)) =
     map (\<lambda>row. if i_userId row = ''u1'' \<and> i_pluginId row = ''company-metrics''
                 then row\<lparr>i_enabled := True\<rparr> else row) (pluginInstallation configuredDb)"
    by blast
  with h1 h4 acme_manifest show ?thesis
    by (simp add: configured_rows)
qed

subsection \<open>Uninstalling\<close>

text \<open>
  C7 as stated does not hold, for three reasons. The override sets that the resolution
  reads are the lists that \<^verbatim>\<open>saveEntityConfig\<close> writes to \<^verbatim>\<open>localStorage\<close>, and the uninstall
  writes nothing there: after \<^verbatim>\<open>company-metrics\<close> is uninstalled with success, the list of the
  company \<^verbatim>\<open>acme\<close> still names it. The two deletions are not atomic: when \<^verbatim>\<open>deleteMany\<close>
  throws, the answer is 500, the installation row is gone and the \<^verbatim>\<open>entityPluginConfig\<close> row
  of the plugin is still there. And the page puts the id into the query string as it is:
  uninstalling \<^verbatim>\<open>a+b\<close> is answered with success and removes the installation of \<^verbatim>\<open>a b\<close>,
  while that of \<^verbatim>\<open>a+b\<close> stays.
\<close>

theorem uninstall_cascade_counterexample:
  "fst (uninstallPlugin acmeQuery NoFault (Some ''u1'') ''company-metrics'' acmeWorld)
     = Status200 () \<and>
   localStorage
     (client (snd (uninstallPlugin acmeQuery NoFault (Some ''u1'') ''company-metrics'' acmeWorld)))
     (storageKey company ''acme'') = Some ''[\"company-metrics\"]'' \<and>
   acmeParse ''[\"company-metrics\"]'' = Some (JArray [JString ''company-metrics'']) \<and>
   json_includes (JArray [JString ''company-metrics'']) ''company-metrics'' = Some True \<and>
   fst (uninstallPlugin acmeQuery DeleteManyThrows (Some ''u1'') ''company-metrics'' acmeWorld)
     = Status500 ''Failed to uninstall plugin'' \<and>
   map i_pluginId (pluginInstallation (server (snd
     (uninstallPlugin acmeQuery DeleteManyThrows (Some ''u1'') ''company-metrics'' acmeWorld))))
     = [''investor-insights'', ''timeline''] \<and>
   entityPluginConfig (server (snd
     (uninstallPlugin acmeQuery DeleteManyThrows (Some ''u1'') ''company-metrics'' acmeWorld)))
     = [\<lparr>c_userId = ''u1'', c_pluginId = ''company-metrics'', c_entityType = company,
         c_entityId = ''acme''\<rparr>] \<and>
   fst (uninstallPlugin acmeQuery NoFault (Some ''u1'') ''a+b'' plusWorld) = Status200 () \<and>
   map i_pluginId (pluginInstallation (server (snd
     (uninstallPlugin acmeQuery NoFault (Some ''u1'') ''a+b'' plusWorld)))) = [''a+b'']"
  by (simp add: uninstallPlugin_def api_plugins_DELETE_def truthy_def acmeWorld_def acme_rows
      acmeBrowser_def storageKey_def acmeParse_def acmeQuery_def plusWorld_def Let_def)

lemma override_survives_uninstall:
  "localStorage
     (client (snd (uninstallPlugin searchParam fault session pluginId
        (w\<lparr>client := saveEntityConfig JSON_stringify entityType entityId newConfig (client w)\<rparr>))))
     (storageKey entityType entityId) = Some (JSON_stringify (JArray (map JString newConfig)))"
  by (simp add: uninstallPlugin_def saveEntityConfig_def split: prod.splits)

lemma DELETE_outcomes:
  fixes d :: db
  defines "rows \<equiv> \<lambda>uid pid. filter (\<lambda>i. \<not> (i_userId i = uid \<and> i_pluginId i = pid))
                               (pluginInstallation d)"
  defines "cfgs \<equiv> \<lambda>uid pid. filter (\<lambda>c. \<not> (c_userId c = uid \<and> c_pluginId c = pid))
                               (entityPluginConfig d)"
  assumes "api_plugins_DELETE fault (Some uid) (Some pid) d = (r, d')"
  shows "(r = Status200 () \<and> fault = NoFault \<and>
            d' = d\<lparr>pluginInstallation := rows uid pid, entityPluginConfig := cfgs uid pid\<rparr>) \<or>
         (r = Status500 ''Failed to uninstall plugin'' \<and> fault = DeleteManyThrows \<and>
            d' = d\<lparr>pluginInstallation := rows uid pid\<rparr>) \<or>
         (r \<noteq> Status200 () \<and> d' = d)"
  using assms(3) unfolding rows_def cfgs_def
  by (cases fault)
     (auto simp: api_plugins_DELETE_def Let_def split: option.splits if_splits)

text \<open>
  C7, amended. For every plugin id that the handler reads from the query string as the
  page wrote it: the uninstall leaves the browser, and so every stored override list, as
  it is. When it is answered with success, the installation row and every
  \<^verbatim>\<open>entityPluginConfig\<close> row of that viewer and plugin are deleted and all other rows are kept,
  and the resolution for that viewer, whatever the slot, the entity, the registry and the
  browser state, does not load the plugin. The deletion is not atomic: when it is not
  answered with success, the \<^verbatim>\<open>entityPluginConfig\<close> rows are all kept, and the installation
  rows are either all kept or, when the second statement has thrown, those of that viewer
  and plugin are gone; and whenever the viewer has the plugin installed and the second
  statement throws, the answer is 500 with the installation row deleted and the
  \<^verbatim>\<open>entityPluginConfig\<close> rows kept.
\<close>

theorem uninstall_removes_rows:
  fixes w :: "'c world" and reg :: "'s store" and b :: "'b browser"
  assumes "searchParam pluginId = Some pluginId"
    and "uninstallPlugin searchParam fault (Some viewer) pluginId w = (r, w')"
  defines "rows \<equiv> filter (\<lambda>i. \<not> (i_userId i = viewer \<and> i_pluginId i = pluginId))
                     (pluginInstallation (server w))"
  defines "cfgs \<equiv> filter (\<lambda>c. \<not> (c_userId c = viewer \<and> c_pluginId c = pluginId))
                     (entityPluginConfig (server w))"
  shows "client w' = client w \<and>
         (r = Status200 () \<longrightarrow>
            pluginInstallation (server w') = rows \<and> entityPluginConfig (server w') = cfgs \<and>
            pluginId \<notin> set (activePluginIds JSON_parse clientSession slotName entityType entityId
                              (pluginList reg (Some viewer) (server w')) b)) \<and>
         (r \<noteq> Status200 () \<longrightarrow>
            entityPluginConfig (server w') = entityPluginConfig (server w) \<and>
            (pluginInstallation (server w') = pluginInstallation (server w) \<or>
             fault = DeleteManyThrows \<and> pluginInstallation (server w') = rows)) \<and>
         (fault = DeleteManyThrows \<and> truthy viewer \<and> truthy pluginId \<and>
          (\<exists>i\<in>set (pluginInstallation (server w)).
             i_userId i = viewer \<and> i_pluginId i = pluginId) \<longrightarrow>
            r = Status500 ''Failed to uninstall plugin'' \<and>
            pluginInstallation (server w') = rows \<and>
            entityPluginConfig (server w') = entityPluginConfig (server w))"
proof -
  from assms(1,2) obtain d' where del:
    "api_plugins_DELETE fault (Some viewer) (Some pluginId) (server w) = (r, d')"
    and w': "w' = w\<lparr>server := d'\<rparr>"
    by (auto simp: uninstallPlugin_def split: prod.splits)
  note out = DELETE_outcomes [OF del]
  have ok: "r = Status200 () \<longrightarrow>
            pluginInstallation (server w') = rows \<and> entityPluginConfig (server w') = cfgs \<and>
            pluginId \<notin> set (activePluginIds JSON_parse clientSession slotName entityType entityId
                              (pluginList reg (Some viewer) (server w')) b)"
  proof
    assume r: "r = Status200 ()"
    with out have d': "d' = (server w)\<lparr>pluginInstallation := rows, entityPluginConfig := cfgs\<rparr>"
      by (auto simp: rows_def cfgs_def)
    then have none: "\<forall>i\<in>set (pluginInstallation (server w')).
            i_userId i = viewer \<and> i_pluginId i = pluginId \<longrightarrow> \<not> i_enabled i"
      by (auto simp: w' rows_def)
    from disabled_not_enabledPlugins [OF none, of slotName "getAvailablePlugins reg"]
      activePluginIds_subset [of JSON_parse clientSession slotName entityType entityId
        "pluginList reg (Some viewer) (server w')" b]
    have "pluginId \<notin> set (activePluginIds JSON_parse clientSession slotName entityType entityId
                           (pluginList reg (Some viewer) (server w')) b)"
      by (auto simp: pluginList_def)
    with d' show "pluginInstallation (server w') = rows \<and> entityPluginConfig (server w') = cfgs \<and>
            pluginId \<notin> set (activePluginIds JSON_parse clientSession slotName entityType entityId
                              (pluginList reg (Some viewer) (server w')) b)"
      by (simp add: w')
  qed
  have fail: "r \<noteq> Status200 () \<longrightarrow>
            entityPluginConfig (server w') = entityPluginConfig (server w) \<and>
            (pluginInstallation (server w') = pluginInstallation (server w) \<or>
             fault = DeleteManyThrows \<and> pluginInstallation (server w') = rows)"
    using out by (auto simp: w' rows_def)
  have partial: "fault = DeleteManyThrows \<and> truthy viewer \<and> truthy pluginId \<and>
          (\<exists>i\<in>set (pluginInstallation (server w)).
             i_userId i = viewer \<and> i_pluginId i = pluginId) \<longrightarrow>
            r = Status500 ''Failed to uninstall plugin'' \<and>
            pluginInstallation (server w') = rows \<and>
            entityPluginConfig (server w') = entityPluginConfig (server w)"
  proof
    assume h: "fault = DeleteManyThrows \<and> truthy viewer \<and> truthy pluginId \<and>
          (\<exists>i\<in>set (pluginInstallation (server w)).
             i_userId i = viewer \<and> i_pluginId i = pluginId)"
    then obtain existing where
      "find (\<lambda>i. i_userId i = viewer \<and> i_pluginId i = pluginId) (pluginInstallation (server w))
         = Some existing"
      by (cases "find (\<lambda>i. i_userId i = viewer \<and> i_pluginId i = pluginId)
                   (pluginInstallation (server w))") (auto simp: find_None_iff)
    with h del show "r = Status500 ''Failed to uninstall plugin'' \<and>
            pluginInstallation (server w') = rows \<and>
            entityPluginConfig (server w') = entityPluginConfig (server w)"
      by (auto simp: api_plugins_DELETE_def Let_def w' rows_def)
  qed
  from ok fail partial show ?thesis
    by (simp add: w')
qed

theorem uninstall_removes_rows_witness:
  "acmeQuery ''company-metrics'' = Some ''company-metrics'' \<and>
   uninstallPlugin acmeQuery NoFault (Some ''u1'') ''company-metrics'' acmeWorld =
     (Status200 (),
      acmeWorld\<lparr>server := \<lparr>pluginInstallation =
                   [\<lparr>i_id = ''2'', i_userId = ''u1'', i_pluginId = ''investor-insights'',
                     i_enabled = True, i_settings = JObject []\<rparr>,
                    \<lparr>i_id = ''3'', i_userId = ''u1'', i_pluginId = ''timeline'',
                     i_enabled = True, i_settings = JObject []\<rparr>],
                 entityPluginConfig = []\<rparr>\<rparr>) \<and>
   ''company-metrics'' \<notin> set (activePluginIds acmeParse (Some ''u1'') ''CompanyProfile.Header''
      (Some company) (Some ''acme'')
      (pluginList acmeRegistry (Some ''u1'')
         \<lparr>pluginInstallation =
                   [\<lparr>i_id = ''2'', i_userId = ''u1'', i_pluginId = ''investor-insights'',
                     i_enabled = True, i_settings = JObject []\<rparr>,
                    \<lparr>i_id = ''3'', i_userId = ''u1'', i_pluginId = ''timeline'',
                     i_enabled = True, i_settings = JObject []\<rparr>],
                 entityPluginConfig = []\<rparr>)
      acmeBrowser) \<and>
   uninstallPlugin acmeQuery DeleteManyThrows (Some ''u1'') ''company-metrics'' acmeWorld =
     (Status500 ''Failed to uninstall plugin'',
      acmeWorld\<lparr>server := \<lparr>pluginInstallation =
                   [\<lparr>i_id = ''2'', i_userId = ''u1'', i_pluginId = ''investor-insights'',
                     i_enabled = True, i_settings = JObject []\<rparr>,
                    \<lparr>i_id = ''3'', i_userId = ''u1'', i_pluginId = ''timeline'',
                     i_enabled = True, i_settings = JObject []\<rparr>],
                 entityPluginConfig =
                   [\<lparr>c_userId = ''u1'', c_pluginId = ''company-metrics'',
                     c_entityType = company, c_entityId = ''acme''\<rparr>]\<rparr>\<rparr>) \<and>
   entityPluginConfig (server (snd
     (uninstallPlugin acmeQuery DeleteManyThrows (Some ''u1'') ''company-metrics'' acmeWorld)))
     = entityPluginConfig (server acmeWorld)"
proof -
  let ?rows = "[\<lparr>i_id = ''2'', i_userId = ''u1'', i_pluginId = ''investor-insights'',
                     i_enabled = True, i_settings = JObject []\<rparr>,
                    \<lparr>i_id = ''3'', i_userId = ''u1'', i_pluginId = ''timeline'',
                     i_enabled = True, i_settings = JObject []\<rparr>]"
  let ?d = "\<lparr>pluginInstallation = ?rows, entityPluginConfig = []\<rparr>"
  let ?d1 = "\<lparr>pluginInstallation = ?rows,
              entityPluginConfig =
                   [\<lparr>c_userId = ''u1'', c_pluginId = ''company-metrics'',
                     c_entityType = company, c_entityId = ''acme''\<rparr>]\<rparr>"
  have q: "acmeQuery ''company-metrics'' = Some ''company-metrics''"
    by (simp add: acmeQuery_def)
  have h: "uninstallPlugin acmeQuery NoFault (Some ''u1'') ''company-metrics'' acmeWorld =
     (Status200 (), acmeWorld\<lparr>server := ?d\<rparr>)"
    by (simp add: uninstallPlugin_def api_plugins_DELETE_def truthy_def acmeWorld_def acme_rows
        acmeQuery_def Let_def)
  have h1: "uninstallPlugin acmeQuery DeleteManyThrows (Some ''u1'') ''company-metrics'' acmeWorld =
     (Status500 ''Failed to uninstall plugin'', acmeWorld\<lparr>server := ?d1\<rparr>)"
    by (simp add: uninstallPlugin_def api_plugins_DELETE_def truthy_def acmeWorld_def acme_rows
        acmeQuery_def Let_def)
  from uninstall_removes_rows
         [OF q h, where JSON_parse = acmeParse and clientSession = "Some ''u1''"
            and slotName = "''CompanyProfile.Header''" and entityType = "Some company"
            and entityId = "Some ''acme''" and reg = acmeRegistry and b = acmeBrowser]
  have "''company-metrics'' \<notin> set (activePluginIds acmeParse (Some ''u1'')
      ''CompanyProfile.Header'' (Some company) (Some ''acme'')
      (pluginList acmeRegistry (Some ''u1'') (server (acmeWorld\<lparr>server := ?d\<rparr>))) acmeBrowser)"
    by blast
  then have a: "''company-metrics'' \<notin> set (activePluginIds acmeParse (Some ''u1'')
      ''CompanyProfile.Header'' (Some company) (Some ''acme'')
      (pluginList acmeRegistry (Some ''u1'') ?d) acmeBrowser)"
    by simp
  have ex: "\<exists>i\<in>set (pluginInstallation (server acmeWorld)).
             i_userId i = ''u1'' \<and> i_pluginId i = ''company-metrics''"
    by (simp add: acmeWorld_def acme_rows)
  have t: "truthy ''u1''" "truthy ''company-metrics''"
    by (simp_all add: truthy_def)
  from uninstall_removes_rows
         [OF q h1, where JSON_parse = acmeParse and clientSession = "Some ''u1''"
            and slotName = "''CompanyProfile.Header''" and entityType = "Some company"
            and entityId = "Some ''acme''" and reg = acmeRegistry and b = acmeBrowser]
       ex t
  have "entityPluginConfig (server (acmeWorld\<lparr>server := ?d1\<rparr>)) =
        entityPluginConfig (server acmeWorld)"
    by blast
  with h1 have c: "entityPluginConfig (server (snd
     (uninstallPlugin acmeQuery DeleteManyThrows (Some ''u1'') ''company-metrics'' acmeWorld)))
     = entityPluginConfig (server acmeWorld)"
    by simp
  from q h a h1 c show ?thesis by blast
qed

end
